theory Spec2Isabelle
  imports Main
begin

section \<open>JavaScript values\<close>

text \<open>
  The notification service (\<^verbatim>\<open>node-functions/api/notify.js\<close>) receives its
  \<^verbatim>\<open>comment\<close>, \<^verbatim>\<open>config\<close> and \<^verbatim>\<open>parentComment\<close> records from a JSON body.
  A field holds \<^verbatim>\<open>undefined\<close> (absent) or a JSON value: \<^verbatim>\<open>null\<close>, a boolean, a number,
  a string, an array or an object.

  A number is given by the text that \<^verbatim>\<open>String\<close> prints for it (\<^verbatim>\<open>0\<close>, \<^verbatim>\<open>-5\<close>,
  \<^verbatim>\<open>1.5\<close>, \<^verbatim>\<open>1e+21\<close>, \<^verbatim>\<open>NaN\<close>): the code converts numbers to strings and tests them
  for truth, it does no arithmetic on them. A nested object is given by the names of its own
  properties; none of them can be called, since JSON has no functions. A string is a list of
  code units; the model has the code units U+0000 to U+00FF, one \<^typ>\<open>char\<close> each.
\<close>

datatype jsval =
    JUndefined
  | JNull
  | JBool bool
  | JNum string
  | JStr string
  | JArr "jsval list"
  | JObj "string list"

text \<open>
  The comment, the config and the parent comment themselves are read by property name; a
  property that is absent reads \<^verbatim>\<open>undefined\<close>. A record that is not an object but a
  primitive other than \<^verbatim>\<open>null\<close> and \<^verbatim>\<open>undefined\<close> reads \<^verbatim>\<open>undefined\<close> for every name the
  source uses, like the object without properties (but for the method \<^verbatim>\<open>link\<close> that a
  string inherits, which the source only hands on to Akismet). Reading a property of \<^verbatim>\<open>null\<close> or
  \<^verbatim>\<open>undefined\<close> raises a TypeError: where the source can meet such a record, the record is
  an option, \<open>None\<close> for \<^verbatim>\<open>null\<close> and \<^verbatim>\<open>undefined\<close>.
\<close>

type_synonym obj = "string \<Rightarrow> jsval"

definition empty_obj :: obj where
  "empty_obj = (\<lambda>_. JUndefined)"

text \<open>\<^verbatim>\<open>ToBoolean\<close>: zero prints as \<^verbatim>\<open>0\<close> whatever its sign; arrays and objects are true.\<close>

fun truthy :: "jsval \<Rightarrow> bool" where
  "truthy JUndefined = False"
| "truthy JNull = False"
| "truthy (JBool b) = b"
| "truthy (JNum s) = (s \<noteq> ''0'' \<and> s \<noteq> ''NaN'')"
| "truthy (JStr s) = (s \<noteq> [])"
| "truthy (JArr xs) = True"
| "truthy (JObj ks) = True"

text \<open>\<^verbatim>\<open>a || b\<close> and \<^verbatim>\<open>a && b\<close> on values that are already computed.\<close>

definition js_or :: "jsval \<Rightarrow> jsval \<Rightarrow> jsval" where
  "js_or a b = (if truthy a then a else b)"

definition js_and :: "jsval \<Rightarrow> jsval \<Rightarrow> jsval" where
  "js_and a b = (if truthy a then b else a)"

section \<open>Errors\<close>

text \<open>
  What the source throws: the TypeError of the language (a method called on a value that lacks
  it, a value that cannot be converted to a string), the two errors \<^verbatim>\<open>initMailer\<close> builds
  itself, the error it wraps around a failed verification, and the error a collaborator throws
  or rejects with, with its message.
\<close>

datatype collaborator = Smtp | Pushoo | Tms | Akismet | Http | Crypto

datatype error =
    TypeError
  | ConfigMissing
  | SmtpServerMissing
  | SmtpVerifyFailed string
  | Rejected collaborator string

text \<open>A computation that may throw: \<open>Inl\<close> the error, \<open>Inr\<close> the value. \<open>and_then\<close> runs the next step unless the first has thrown.\<close>

definition and_then :: "error + 'a \<Rightarrow> ('a \<Rightarrow> error + 'b) \<Rightarrow> error + 'b" where
  "and_then m f = (case m of Inl e \<Rightarrow> Inl e | Inr x \<Rightarrow> f x)"

section \<open>Conversion to a string\<close>

text \<open>
  \<^verbatim>\<open>String(v)\<close>, also what a template literal, \<^verbatim>\<open>RegExp.prototype.test\<close> and the
  replacement argument of \<^verbatim>\<open>replace\<close> apply. An object prints as \<^verbatim>\<open>[object Object]\<close>,
  unless it has a property \<^verbatim>\<open>toString\<close> of its own: that property hides the inherited
  method and cannot be called, and the conversion throws a TypeError. An array prints its
  elements separated by commas, \<^verbatim>\<open>null\<close> and \<^verbatim>\<open>undefined\<close> as nothing.
\<close>

fun js_String :: "jsval \<Rightarrow> error + string"
  and js_join :: "jsval list \<Rightarrow> error + string" where
  "js_String JUndefined = Inr ''undefined''"
| "js_String JNull = Inr ''null''"
| "js_String (JBool b) = Inr (if b then ''true'' else ''false'')"
| "js_String (JNum s) = Inr s"
| "js_String (JStr s) = Inr s"
| "js_String (JArr xs) = js_join xs"
| "js_String (JObj ks) = (if ''toString'' \<in> set ks then Inl TypeError else Inr ''[object Object]'')"
| "js_join [] = Inr []"
| "js_join (x # xs) =
     (case (if x = JNull \<or> x = JUndefined then Inr [] else js_String x) of
        Inl e \<Rightarrow> Inl e
      | Inr s \<Rightarrow>
          (if xs = [] then Inr s
           else case js_join xs of Inl e \<Rightarrow> Inl e | Inr t \<Rightarrow> Inr (s @ '','' @ t)))"

text \<open>The values whose conversion cannot throw: everything but arrays and objects.\<close>

fun primitive :: "jsval \<Rightarrow> bool" where
  "primitive (JArr xs) = False"
| "primitive (JObj ks) = False"
| "primitive v = True"

text \<open>
  \<^verbatim>\<open>a + b\<close> where the source wants a string: when one side is a string, an array or an
  object, both sides are converted (the left one first) and concatenated; otherwise the sum is
  a number, \<open>None\<close> here, since its value is never used.
\<close>

fun adds_as_string :: "jsval \<Rightarrow> bool" where
  "adds_as_string (JStr s) = True"
| "adds_as_string (JArr xs) = True"
| "adds_as_string (JObj ks) = True"
| "adds_as_string v = False"

definition js_plus :: "jsval \<Rightarrow> jsval \<Rightarrow> error + string option" where
  "js_plus a b =
     (if adds_as_string a \<or> adds_as_string b
      then and_then (js_String a) (\<lambda>s. and_then (js_String b) (\<lambda>t. Inr (Some (s @ t))))
      else Inr None)"


subsection \<open>String methods\<close>

text \<open>White space and line terminators that \<^verbatim>\<open>trim\<close> removes, among the code units modelled.\<close>

definition js_space :: "char \<Rightarrow> bool" where
  "js_space c = (of_char c \<in> {9, 10, 11, 12, 13, 32, (160::nat)})"

definition js_trim :: "string \<Rightarrow> string" where
  "js_trim s = rev (dropWhile js_space (rev (dropWhile js_space s)))"

text \<open>\<^verbatim>\<open>toLowerCase\<close>: A to Z, and the upper-case letters of U+00C0 to U+00DE (not U+00D7).\<close>

definition lower_char :: "char \<Rightarrow> char" where
  "lower_char c =
     (let n = (of_char c :: nat) in
      if (65 \<le> n \<and> n \<le> 90) \<or> (192 \<le> n \<and> n \<le> 222 \<and> n \<noteq> 215) then char_of (n + 32) else c)"

definition toLowerCase :: "string \<Rightarrow> string" where
  "toLowerCase s = map lower_char s"

text \<open>\<^verbatim>\<open>s.indexOf(c)\<close> for a one-character needle: the first position, or -1.\<close>

definition indexOf :: "string \<Rightarrow> char \<Rightarrow> int" where
  "indexOf s c = (if c \<in> set s then int (length (takeWhile (\<lambda>x. x \<noteq> c) s)) else - 1)"

text \<open>\<^verbatim>\<open>s.substring(0, e)\<close>: a negative end counts as 0, an end past the string as its length.\<close>

definition substring0 :: "string \<Rightarrow> int \<Rightarrow> string" where
  "substring0 s e = take (nat e) s"

section \<open>Utility functions\<close>

definition normalizeMail :: "jsval \<Rightarrow> error + string" where
  "normalizeMail mail = and_then (js_String mail) (\<lambda>s. Inr (toLowerCase (js_trim s)))"

definition equalsMail :: "jsval \<Rightarrow> jsval \<Rightarrow> error + bool" where
  "equalsMail mail1 mail2 =
     (if \<not> truthy mail1 \<or> \<not> truthy mail2 then Inr False
      else and_then (normalizeMail mail1) (\<lambda>a. and_then (normalizeMail mail2) (\<lambda>b. Inr (a = b))))"

text \<open>
  \<^verbatim>\<open>appendHashToUrl(url, hash)\<close>. A string has \<^verbatim>\<open>indexOf\<close> and \<^verbatim>\<open>substring\<close>. An array
  has \<^verbatim>\<open>indexOf\<close> only: without an element \<^verbatim>\<open>'#'\<close> it is printed in front of the hash,
  with one the call of \<^verbatim>\<open>substring\<close> raises a TypeError. On every other value the call of
  \<^verbatim>\<open>indexOf\<close> raises a TypeError. The url and the hash go through a template literal.
\<close>

definition appendHashToUrl :: "jsval \<Rightarrow> jsval \<Rightarrow> error + string" where
  "appendHashToUrl url hash =
     (case url of
        JStr u \<Rightarrow>
          (if indexOf u (CHR ''#'') = - 1
           then and_then (js_String hash) (\<lambda>h. Inr (u @ ''#'' @ h))
           else and_then (js_String hash)
                  (\<lambda>h. Inr (substring0 u (indexOf u (CHR ''#'')) @ ''#'' @ h)))
      | JArr xs \<Rightarrow>
          (if JStr ''#'' \<in> set xs then Inl TypeError
           else and_then (js_String url)
                  (\<lambda>u. and_then (js_String hash) (\<lambda>h. Inr (u @ ''#'' @ h))))
      | _ \<Rightarrow> Inl TypeError)"

subsection \<open>The regular expressions of the source\<close>

definition is_digit :: "char \<Rightarrow> bool" where
  "is_digit c = (48 \<le> (of_char c :: nat) \<and> (of_char c :: nat) \<le> 57)"

definition is_digit19 :: "char \<Rightarrow> bool" where
  "is_digit19 c = (49 \<le> (of_char c :: nat) \<and> (of_char c :: nat) \<le> 57)"

text \<open>The regular expression \<^verbatim>\<open>.\<close> matches one code unit that is not a line terminator.\<close>

definition regex_dot :: "char \<Rightarrow> bool" where
  "regex_dot c = (of_char c \<notin> {10, (13::nat)})"

text \<open>
  \<^verbatim>\<open>@qq.com\<close> under the \<^verbatim>\<open>i\<close> flag against exactly the given characters. With
  \<open>escaped\<close> the fourth character is the literal dot of \<^verbatim>\<open>/@qq\.com/\<close>; without it, it is
  the unescaped dot of \<^verbatim>\<open>/@qq.com/\<close>.
\<close>

definition qq_com_at :: "bool \<Rightarrow> string \<Rightarrow> bool" where
  "qq_com_at escaped s =
     (case s of
        [c0, c1, c2, c3, c4, c5, c6] \<Rightarrow>
          c0 = CHR ''@'' \<and> (c1 = CHR ''q'' \<or> c1 = CHR ''Q'') \<and> (c2 = CHR ''q'' \<or> c2 = CHR ''Q'')
          \<and> (if escaped then c3 = CHR ''.'' else regex_dot c3)
          \<and> (c4 = CHR ''c'' \<or> c4 = CHR ''C'') \<and> (c5 = CHR ''o'' \<or> c5 = CHR ''O'')
          \<and> (c6 = CHR ''m'' \<or> c6 = CHR ''M'')
      | _ \<Rightarrow> False)"

text \<open>\<^verbatim>\<open>/^[1-9][0-9]{4,10}$/\<close>\<close>

definition re_qq_number :: "string \<Rightarrow> bool" where
  "re_qq_number s =
     (case s of
        [] \<Rightarrow> False
      | c # cs \<Rightarrow> is_digit19 c \<and> 4 \<le> length cs \<and> length cs \<le> 10 \<and> list_all is_digit cs)"

text \<open>\<^verbatim>\<open>/^[1-9][0-9]{4,10}@qq.com$/i\<close>: some count of 4 to 10 digits, then the seven characters.\<close>

definition re_qq_mail :: "string \<Rightarrow> bool" where
  "re_qq_mail s =
     (case s of
        [] \<Rightarrow> False
      | c # cs \<Rightarrow>
          is_digit19 c \<and>
          list_ex (\<lambda>n. n \<le> length cs \<and> list_all is_digit (take n cs) \<and> qq_com_at False (drop n cs))
            [4, 5, 6, 7, 8, 9, 10])"

text \<open>Both tests convert the mail to a string first; the conversion can throw.\<close>

definition isQQ :: "jsval \<Rightarrow> error + bool" where
  "isQQ mail = and_then (js_String mail) (\<lambda>s. Inr (re_qq_number s \<or> re_qq_mail s))"

text \<open>
  \<^verbatim>\<open>mail.replace(/@qq\.com$/i, '')\<close>: the match can only be the last seven characters.
  \<^verbatim>\<open>replace\<close> is a method of strings: on another value the call raises a TypeError.
\<close>

definition strip_qq_suffix :: "jsval \<Rightarrow> error + jsval" where
  "strip_qq_suffix mail =
     (case mail of
        JStr s \<Rightarrow>
          Inr (JStr (if 7 \<le> length s \<and> qq_com_at True (drop (length s - 7) s)
                     then take (length s - 7) s else s))
      | _ \<Rightarrow> Inl TypeError)"

text \<open>\<^verbatim>\<open>qq.replace(/@qq.com/ig, '')\<close>: every match, left to right, is removed.\<close>

function remove_qq_com :: "string \<Rightarrow> string" where
  "remove_qq_com [] = []"
| "remove_qq_com (c # cs) =
     (if qq_com_at False (take 7 (c # cs)) then remove_qq_com (drop 6 cs)
      else c # remove_qq_com cs)"
  by pat_completeness auto
termination
  by (relation "measure length") auto

text \<open>
  The replacement string of \<^verbatim>\<open>String.prototype.replace\<close> is a pattern: \<^verbatim>\<open>$$\<close> stands for
  a dollar sign, \<^verbatim>\<open>$&\<close> for the matched text, \<^verbatim>\<open>$`\<close> for the text before the match and
  \<^verbatim>\<open>$'\<close> for the text after it. The regular expressions of the templates have no capture
  group, so \<^verbatim>\<open>$1\<close> and \<^verbatim>\<open>$<name>\<close> stay as they are, as does any other dollar sign.
\<close>

fun getSubstitution :: "string \<Rightarrow> string \<Rightarrow> string \<Rightarrow> string \<Rightarrow> string" where
  "getSubstitution matched pre post [] = []"
| "getSubstitution matched pre post [c] = [c]"
| "getSubstitution matched pre post (c # d # r) =
     (if c = CHR ''$'' \<and> d = CHR ''$'' then CHR ''$'' # getSubstitution matched pre post r
      else if c = CHR ''$'' \<and> d = CHR ''&'' then matched @ getSubstitution matched pre post r
      else if c = CHR ''$'' \<and> d = CHR 0x60 then pre @ getSubstitution matched pre post r
      else if c = CHR ''$'' \<and> d = CHR 0x27 then post @ getSubstitution matched pre post r
      else c # getSubstitution matched pre post (d # r))"

text \<open>
  \<^verbatim>\<open>str.replace(/\${NAME}/g, replacement)\<close>: the pattern is the literal text \<open>pat\<close>; every
  occurrence, scanning left to right without overlap, is replaced by the expansion of the
  replacement. \<open>pre\<close> holds the part of the string already scanned.
\<close>

function replace_from :: "string \<Rightarrow> string \<Rightarrow> string \<Rightarrow> string \<Rightarrow> string" where
  "replace_from pat repl pre [] = []"
| "replace_from pat repl pre (c # cs) =
     (if pat \<noteq> [] \<and> take (length pat) (c # cs) = pat
      then getSubstitution pat pre (drop (length pat - 1) cs) repl
           @ replace_from pat repl (pre @ pat) (drop (length pat - 1) cs)
      else c # replace_from pat repl (pre @ [c]) cs)"
  by pat_completeness auto
termination
  by (relation "measure (\<lambda>(pat, repl, pre, s). length s)") auto

text \<open>
  A chain of \<^verbatim>\<open>.replace(/\${NAME}/g, value)\<close> calls on a string, in the order listed: each
  value is converted with \<^verbatim>\<open>ToString\<close> when its call is reached, whether or not the
  placeholder occurs.
\<close>

definition placeholder :: "string \<Rightarrow> string" where
  "placeholder name = ''${'' @ name @ ''}''"

fun replace_chain :: "string \<Rightarrow> (string \<times> jsval) list \<Rightarrow> error + string" where
  "replace_chain s [] = Inr s"
| "replace_chain s ((name, v) # rest) =
     (case js_String v of
        Inl e \<Rightarrow> Inl e
      | Inr t \<Rightarrow> replace_chain (replace_from (placeholder name) t [] s) rest)"

text \<open>\<^verbatim>\<open>html.replace(/<[^>]*>/g, '')\<close>: a \<^verbatim>\<open><\<close> matches up to the next \<^verbatim>\<open>>\<close>, if there is one.\<close>

function strip_tags :: "string \<Rightarrow> string" where
  "strip_tags [] = []"
| "strip_tags (c # cs) =
     (if c = CHR ''<'' \<and> CHR ''>'' \<in> set cs
      then strip_tags (tl (dropWhile (\<lambda>x. x \<noteq> CHR ''>'') cs))
      else c # strip_tags cs)"
  by pat_completeness auto
termination
  by (relation "measure length") (auto simp: less_Suc_eq_le intro!: le_trans [OF diff_le_self length_dropWhile_le])

definition stripHtml :: "jsval \<Rightarrow> error + string" where
  "stripHtml html = (case html of JStr s \<Rightarrow> Inr (js_trim (strip_tags s)) | _ \<Rightarrow> Inl TypeError)"

text \<open>
  \<^verbatim>\<open>parseInt(v)\<close> with no radix: the value is converted to a string; leading white space,
  a sign, \<^verbatim>\<open>0x\<close> for base 16, then the longest run of digits. \<open>None\<close> is NaN; \<open>Some n\<close> is
  the integer read. The number the code holds is the double nearest to that integer, which is
  the integer itself below \<open>2 ^ 53\<close>.
\<close>

definition digit_value :: "char \<Rightarrow> nat" where
  "digit_value c =
     (let n = (of_char c :: nat) in
      if 48 \<le> n \<and> n \<le> 57 then n - 48
      else if 97 \<le> n \<and> n \<le> 102 then n - 87
      else if 65 \<le> n \<and> n \<le> 70 then n - 55
      else 16)"

definition parseInt :: "jsval \<Rightarrow> error + int option" where
  "parseInt v =
     and_then (js_String v)
       (\<lambda>s. let s0 = dropWhile js_space s;
                 neg = (take 1 s0 = ''-'');
                 s1 = (if take 1 s0 = ''+'' \<or> take 1 s0 = ''-'' then drop 1 s0 else s0);
                 hex = (take 2 s1 = ''0x'' \<or> take 2 s1 = ''0X'');
                 radix = (if hex then 16 else (10::nat));
                 s2 = (if hex then drop 2 s1 else s1);
                 z = takeWhile (\<lambda>c. digit_value c < radix) s2
             in if z = [] then Inr None
                else Inr (Some ((if neg then - 1 else 1)
                                * int (foldl (\<lambda>a c. a * radix + digit_value c) 0 z))))"

section \<open>The world outside: services, events, state\<close>

text \<open>
  The options handed to \<^verbatim>\<open>nodemailer.createTransport\<close>: user and password, then either
  the name of a service, or host, port (as \<^verbatim>\<open>parseInt\<close> read it) and the secure flag.
\<close>

datatype transport =
    ServiceTransport jsval jsval jsval
  | HostTransport jsval jsval jsval "int option" bool

record mail_message =
  mail_from :: jsval
  mail_to :: jsval
  mail_subject :: jsval
  mail_html :: jsval

record push_message =
  push_token :: jsval
  push_title :: jsval
  push_content :: string
  push_bark_url :: string

record tms_params =
  tms_Content :: string
  tms_DataId :: jsval
  tms_Nickname :: jsval
  tms_IP :: jsval
  tms_BizType :: jsval

record akismet_params =
  user_ip :: jsval
  user_agent :: jsval
  permalink :: jsval
  comment_type :: string
  comment_author :: jsval
  comment_author_email :: jsval
  comment_author_url :: jsval
  comment_content :: jsval

text \<open>What \<^verbatim>\<open>sendMail\<close> left in \<^verbatim>\<open>sendResult\<close>: the delivery report, or the error caught.\<close>

datatype send_result = Delivered string | Caught error

datatype level = LogInfo | LogWarn | LogError

text \<open>
  One constructor for each message text of the source's \<^verbatim>\<open>console\<close> calls, with the values
  printed after it. Two calls with the same text share a constructor.
\<close>

datatype logmsg =
    SmtpConfigOk
  | MailerInitFailed error
  | MailerUnavailable
  | OwnerCommentNoNotice
  | PushConfiguredNoMail
  | MasterNoticeResult send_result
  | NoParentId
  | ParentNotFound
  | ReplyToOwnerNoNotice
  | SelfReplyNoNotice
  | ReplyNoticeResult send_result
  | PushooNotConfigured
  | PushNoticeResult string
  | NoticeException
  | TmsRequest tms_params
  | TmsResponse jsval
  | TmsCheckFailed error
  | AkismetKeyUnusable jsval
  | SpamCheckResult jsval
  | SpamCheckException error
  | QQAvatarFailed error
  | QQAvatarFetched jsval
  | PostSubmitStart
  | SpamResult jsval
  | SpamFailed error
  | NoticeDone
  | NoticeFailed error
  | PostSubmitFailed error
  | RouterFailed error

text \<open>Every call that leaves the process, and every console line, in the order it is made.\<close>

datatype event =
    SmtpVerify transport
  | SendMail transport mail_message
  | PushooCall jsval push_message
  | TmsTextModeration tms_params
  | AkismetVerifyKey jsval jsval
  | AkismetCheckSpam jsval jsval akismet_params
  | HttpGet string
  | Console level logmsg

text \<open>
  The module's one variable, \<^verbatim>\<open>transporter\<close> (\<open>None\<close> for \<^verbatim>\<open>null\<close>), and the events
  so far.
\<close>

record state =
  transporter :: "transport option"
  trace :: "event list"

text \<open>
  The collaborators: each call returns \<open>Inr\<close> its result or \<open>Inl\<close> the message of the error
  it throws or rejects with (an \<^verbatim>\<open>Error\<close> object, so that its message can be read). \<open>http_get\<close> returns what \<^verbatim>\<open>result.data?.url\<close> reads from the
  response; \<open>tms_client\<close> is the loading of the SDK and the construction of its client from
  the two credentials; \<open>tms_moderation\<close> returns the \<^verbatim>\<open>Suggestion\<close> of the verdict.
  \<open>base64_utf8\<close> is \<^verbatim>\<open>Base64.stringify(Utf8.parse(v))\<close>, \<open>md5\<close> and \<open>sha256\<close> are the two
  hashes with the digest printed; these three can throw as well. \<open>create_transport\<close> is
  \<^verbatim>\<open>nodemailer.createTransport\<close> and \<open>akismet_client\<close> the constructor of the Akismet client:
  the object they build is determined by the options, and they can throw on options they do
  not accept.

  The source's literal texts in Chinese (default subjects, the built-in HTML layouts, the push
  message) are not strings of code units below U+0100; each is a function of the values it
  interpolates.
\<close>

record env =
  create_transport :: "transport \<Rightarrow> string + unit"
  smtp_verify :: "transport \<Rightarrow> string + bool"
  smtp_send :: "transport \<Rightarrow> mail_message \<Rightarrow> string + string"
  pushoo :: "jsval \<Rightarrow> push_message \<Rightarrow> string + string"
  base64_utf8 :: "jsval \<Rightarrow> string + string"
  tms_client :: "jsval \<Rightarrow> jsval \<Rightarrow> string + unit"
  tms_moderation :: "tms_params \<Rightarrow> string + jsval"
  akismet_client :: "jsval \<Rightarrow> jsval \<Rightarrow> string + unit"
  akismet_verify :: "jsval \<Rightarrow> jsval \<Rightarrow> string + bool"
  akismet_check :: "jsval \<Rightarrow> jsval \<Rightarrow> akismet_params \<Rightarrow> string + bool"
  http_get :: "string \<Rightarrow> string + jsval"
  md5 :: "jsval \<Rightarrow> string + string"
  sha256 :: "jsval \<Rightarrow> string + string"
  subject_admin_text :: "string \<Rightarrow> string"
  html_admin_text :: "string \<Rightarrow> string \<Rightarrow> string \<Rightarrow> string \<Rightarrow> string \<Rightarrow> string"
  subject_reply_text :: "string \<Rightarrow> string \<Rightarrow> string"
  html_reply_text :: "string \<Rightarrow> string \<Rightarrow> string \<Rightarrow> string \<Rightarrow> string \<Rightarrow> string \<Rightarrow> string \<Rightarrow> string"
  subject_push_text :: "string \<Rightarrow> string"
  content_push_text :: "string \<Rightarrow> string \<Rightarrow> string \<Rightarrow> string \<Rightarrow> string \<Rightarrow> string"
  subject_test_text :: string
  html_test_text :: string

definition emit :: "event \<Rightarrow> state \<Rightarrow> state" where
  "emit e st = st\<lparr>trace := trace st @ [e]\<rparr>"

definition console :: "level \<Rightarrow> logmsg \<Rightarrow> state \<Rightarrow> state" where
  "console l m st = emit (Console l m) st"

section \<open>Avatar\<close>

definition hashed :: "(jsval \<Rightarrow> string + string) \<Rightarrow> jsval \<Rightarrow> error + jsval" where
  "hashed h v = (case h v of Inl m \<Rightarrow> Inl (Rejected Crypto m) | Inr d \<Rightarrow> Inr (JStr d))"

definition getMailMd5 :: "env \<Rightarrow> obj \<Rightarrow> error + jsval" where
  "getMailMd5 env comment =
     (if truthy (comment ''mailMd5'') then Inr (comment ''mailMd5'')
      else if truthy (comment ''mail'')
      then and_then (normalizeMail (comment ''mail'')) (\<lambda>s. hashed (md5 env) (JStr s))
      else hashed (md5 env) (comment ''nick''))"

definition getMailSha256 :: "env \<Rightarrow> obj \<Rightarrow> error + jsval" where
  "getMailSha256 env comment =
     (if truthy (comment ''mail'')
      then and_then (normalizeMail (comment ''mail'')) (\<lambda>s. hashed (sha256 env) (JStr s))
      else hashed (sha256 env) (comment ''nick''))"

text \<open>
  \<^verbatim>\<open>getAvatar\<close>. The default image name interpolates the nickname before the configured
  default is looked at, so a nickname that cannot be converted throws in either case. Both
  callers have read a property of \<^verbatim>\<open>config\<close> before they call it, so the config is not
  \<^verbatim>\<open>null\<close> here; the same holds for everything else that composes a message.
\<close>

definition getAvatar :: "env \<Rightarrow> obj \<Rightarrow> obj \<Rightarrow> error + jsval" where
  "getAvatar env comment config =
     (if truthy (comment ''avatar'') then Inr (comment ''avatar'')
      else
        and_then (js_String (comment ''nick''))
          (\<lambda>nick.
             let gravatarCdn = js_or (config ''GRAVATAR_CDN'') (JStr ''weavatar.com'');
                 defaultGravatar =
                   (if truthy (config ''DEFAULT_GRAVATAR'') then config ''DEFAULT_GRAVATAR''
                    else JStr (''initials&name='' @ nick))
             in and_then
                  (if gravatarCdn = JStr ''cravatar.cn'' then getMailMd5 env comment
                   else getMailSha256 env comment)
                  (\<lambda>mailHash.
                     and_then (js_String gravatarCdn)
                       (\<lambda>cdn. and_then (js_String mailHash)
                          (\<lambda>h. and_then (js_String defaultGravatar)
                             (\<lambda>d. Inr (JStr (''https://'' @ cdn @ ''/avatar/'' @ h
                                               @ ''?d='' @ d))))))))"

section \<open>Mail\<close>

text \<open>
  The inner \<^verbatim>\<open>try\<close> of \<^verbatim>\<open>initMailer\<close> with what precedes it: the transport is created
  and stored in \<^verbatim>\<open>transporter\<close> before it is verified, and a failed verification leaves it
  there. When the creation throws, \<^verbatim>\<open>transporter\<close> keeps its value.
\<close>

definition verifyTransport :: "env \<Rightarrow> transport \<Rightarrow> state \<Rightarrow> (error + bool) \<times> state" where
  "verifyTransport env t st =
     (case create_transport env t of
        Inl m \<Rightarrow> (Inl (Rejected Smtp m), st)
      | Inr u \<Rightarrow>
          (let st1 = emit (SmtpVerify t) (st\<lparr>transporter := Some t\<rparr>) in
           case smtp_verify env t of
             Inl m \<Rightarrow> (Inl (SmtpVerifyFailed m), st1)
           | Inr success \<Rightarrow> (Inr True, if success then console LogInfo SmtpConfigOk st1 else st1)))"

text \<open>
  The outer \<^verbatim>\<open>try\<close> block of \<^verbatim>\<open>initMailer\<close>; \<open>Inl\<close> is the error thrown in it. The
  test \<^verbatim>\<open>!config\<close> is true for a config that is \<^verbatim>\<open>null\<close> or absent.
\<close>

definition initMailer_try :: "env \<Rightarrow> obj option \<Rightarrow> state \<Rightarrow> (error + bool) \<times> state" where
  "initMailer_try env config0 st =
     (case config0 of
        None \<Rightarrow> (Inl ConfigMissing, st)
      | Some config \<Rightarrow>
          if \<not> truthy (config ''SMTP_USER'') \<or> \<not> truthy (config ''SMTP_PASS'')
          then (Inl ConfigMissing, st)
          else if truthy (config ''SMTP_SERVICE'')
          then verifyTransport env
                 (ServiceTransport (config ''SMTP_USER'') (config ''SMTP_PASS'')
                    (config ''SMTP_SERVICE'')) st
          else if truthy (config ''SMTP_HOST'')
          then (case parseInt (config ''SMTP_PORT'') of
                  Inl e \<Rightarrow> (Inl e, st)
                | Inr p \<Rightarrow>
                    verifyTransport env
                      (HostTransport (config ''SMTP_USER'') (config ''SMTP_PASS'')
                         (config ''SMTP_HOST'') p (config ''SMTP_SECURE'' = JStr ''true'')) st)
          else (Inl SmtpServerMissing, st))"

definition initMailer :: "env \<Rightarrow> obj option \<Rightarrow> bool \<Rightarrow> state \<Rightarrow> (error + bool) \<times> state" where
  "initMailer env config throwErr st =
     (case initMailer_try env config st of
        (Inr ok, st1) \<Rightarrow> (Inr ok, st1)
      | (Inl e, st1) \<Rightarrow>
          if throwErr then (Inl e, console LogError (MailerInitFailed e) st1)
          else (Inr False, console LogWarn (MailerInitFailed e) st1))"

text \<open>\<^verbatim>\<open>!transporter && !await initMailer(config)\<close>: \<open>Inr True\<close> when there is no mailer.\<close>

definition noMailer :: "env \<Rightarrow> obj option \<Rightarrow> state \<Rightarrow> (error + bool) \<times> state" where
  "noMailer env config st =
     (case transporter st of
        Some t \<Rightarrow> (Inr False, st)
      | None \<Rightarrow>
          (case initMailer env config False st of
             (Inl e, st1) \<Rightarrow> (Inl e, st1)
           | (Inr ok, st1) \<Rightarrow> (Inr (\<not> ok), st1)))"

text \<open>
  \<^verbatim>\<open>try { sendResult = await transporter.sendMail({...}) } catch (e) { sendResult = e }\<close>.
  The message is built inside the \<^verbatim>\<open>try\<close>: an error in building it (\<open>msg = Inl e\<close>) is
  caught like a failure of the sending, and like the TypeError of reading \<^verbatim>\<open>sendMail\<close> from
  a \<^verbatim>\<open>null\<close> transporter.
\<close>

definition sendMail :: "env \<Rightarrow> error + mail_message \<Rightarrow> state \<Rightarrow> send_result \<times> state" where
  "sendMail env msg st =
     (case transporter st of
        None \<Rightarrow> (Caught TypeError, st)
      | Some t \<Rightarrow>
          (case msg of
             Inl e \<Rightarrow> (Caught e, st)
           | Inr m \<Rightarrow>
               (case smtp_send env t m of
                  Inl r \<Rightarrow> (Caught (Rejected Smtp r), emit (SendMail t m) st)
                | Inr info \<Rightarrow> (Delivered info, emit (SendMail t m) st))))"

text \<open>\<^verbatim>\<open>appendHashToUrl(comment.href || SITE_URL + comment.url, comment.id || comment._id)\<close>\<close>

definition postUrl :: "obj \<Rightarrow> obj \<Rightarrow> error + string" where
  "postUrl comment config =
     (if truthy (comment ''href'')
      then appendHashToUrl (comment ''href'') (js_or (comment ''id'') (comment ''_id''))
      else
        case js_plus (config ''SITE_URL'') (comment ''url'') of
          Inl e \<Rightarrow> Inl e
        | Inr (Some u) \<Rightarrow> appendHashToUrl (JStr u) (js_or (comment ''id'') (comment ''_id''))
        | Inr None \<Rightarrow> Inl TypeError)"

text \<open>A template: \<^verbatim>\<open>replace\<close> is a method of strings, the call on another value raises a TypeError.\<close>

definition renderTemplate :: "jsval \<Rightarrow> (string \<times> jsval) list \<Rightarrow> error + string" where
  "renderTemplate template values =
     (case template of
        JStr t \<Rightarrow> replace_chain t values
      | _ \<Rightarrow> Inl TypeError)"

text \<open>The sender, a template literal inside the message.\<close>

definition fromHeader :: "obj \<Rightarrow> error + jsval" where
  "fromHeader config =
     and_then (js_String (config ''SENDER_NAME''))
       (\<lambda>name. and_then (js_String (config ''SENDER_EMAIL''))
          (\<lambda>addr. Inr (JStr ([CHR 0x22] @ name @ [CHR 0x22] @ '' <'' @ addr @ ''>''))))"

definition masterSubject :: "env \<Rightarrow> obj \<Rightarrow> error + jsval" where
  "masterSubject env config =
     (if truthy (config ''MAIL_SUBJECT_ADMIN'') then Inr (config ''MAIL_SUBJECT_ADMIN'')
      else and_then (js_String (config ''SITE_NAME''))
             (\<lambda>name. Inr (JStr (subject_admin_text env name))))"

definition masterContent :: "env \<Rightarrow> obj \<Rightarrow> obj \<Rightarrow> jsval \<Rightarrow> string \<Rightarrow> error + string" where
  "masterContent env comment config IMG POST_URL =
     (if truthy (config ''MAIL_TEMPLATE_ADMIN'')
      then renderTemplate (config ''MAIL_TEMPLATE_ADMIN'')
             [(''SITE_URL'', config ''SITE_URL''),
              (''SITE_NAME'', config ''SITE_NAME''),
              (''NICK'', comment ''nick''),
              (''IMG'', IMG),
              (''IP'', comment ''ip''),
              (''MAIL'', comment ''mail''),
              (''COMMENT'', comment ''comment''),
              (''POST_URL'', JStr POST_URL)]
      else
        and_then (js_String (config ''SITE_URL''))
          (\<lambda>site_url. and_then (js_String (config ''SITE_NAME''))
             (\<lambda>site_name. and_then (js_String (comment ''nick''))
                (\<lambda>nick. and_then (js_String (comment ''comment''))
                   (\<lambda>text. Inr (html_admin_text env site_url site_name nick text POST_URL))))))"

text \<open>
  What \<^verbatim>\<open>noticeMaster\<close> computes between its guards and the sending, in the order of the
  source: avatar, permalink, subject, body. Any of the four can throw.
\<close>

definition masterMessage :: "env \<Rightarrow> obj \<Rightarrow> obj \<Rightarrow> error + jsval \<times> string" where
  "masterMessage env comment config =
     and_then (getAvatar env comment config)
       (\<lambda>IMG. and_then (postUrl comment config)
          (\<lambda>POST_URL. and_then (masterSubject env config)
             (\<lambda>emailSubject. and_then (masterContent env comment config IMG POST_URL)
                (\<lambda>emailContent. Inr (emailSubject, emailContent)))))"

definition masterMail :: "obj \<Rightarrow> jsval \<Rightarrow> string \<Rightarrow> error + mail_message" where
  "masterMail config emailSubject emailContent =
     and_then (fromHeader config)
       (\<lambda>sender. Inr \<lparr>mail_from = sender,
                       mail_to = js_or (config ''BLOGGER_EMAIL'') (config ''SENDER_EMAIL''),
                       mail_subject = emailSubject,
                       mail_html = JStr emailContent\<rparr>)"

text \<open>
  \<^verbatim>\<open>noticeMaster\<close>: \<open>Inl\<close> when the promise rejects, \<open>Inr\<close> the value it resolves with.
  With a transporter left by an earlier call and a config that is \<^verbatim>\<open>null\<close>, reading
  \<^verbatim>\<open>config.BLOGGER_EMAIL\<close> raises a TypeError.
\<close>

definition noticeMaster ::
  "env \<Rightarrow> obj \<Rightarrow> obj option \<Rightarrow> state \<Rightarrow> (error + send_result option) \<times> state" where
  "noticeMaster env comment config0 st =
     (case noMailer env config0 st of
        (Inl e, st1) \<Rightarrow> (Inl e, st1)
      | (Inr True, st1) \<Rightarrow> (Inr None, console LogInfo MailerUnavailable st1)
      | (Inr False, st1) \<Rightarrow>
          (case config0 of
             None \<Rightarrow> (Inl TypeError, st1)
           | Some config \<Rightarrow>
               (case equalsMail (config ''BLOGGER_EMAIL'') (comment ''mail'') of
                  Inl e \<Rightarrow> (Inl e, st1)
                | Inr True \<Rightarrow> (Inr None, console LogInfo OwnerCommentNoNotice st1)
                | Inr False \<Rightarrow>
                    if truthy (js_and (config ''PUSHOO_CHANNEL'') (config ''PUSHOO_TOKEN''))
                       \<and> config ''SC_MAIL_NOTIFY'' \<noteq> JStr ''true''
                    then (Inr None, console LogInfo PushConfiguredNoMail st1)
                    else
                      (case masterMessage env comment config of
                         Inl e \<Rightarrow> (Inl e, st1)
                       | Inr (emailSubject, emailContent) \<Rightarrow>
                           (case sendMail env (masterMail config emailSubject emailContent) st1 of
                              (sendResult, st2) \<Rightarrow>
                                (Inr (Some sendResult),
                                 console LogInfo (MasterNoticeResult sendResult) st2))))))"

definition replySubject :: "env \<Rightarrow> obj \<Rightarrow> obj \<Rightarrow> error + jsval" where
  "replySubject env config parentComment =
     (if truthy (config ''MAIL_SUBJECT'') then Inr (config ''MAIL_SUBJECT'')
      else and_then (js_String (parentComment ''nick''))
             (\<lambda>parent_nick. and_then (js_String (config ''SITE_NAME''))
                (\<lambda>site_name. Inr (JStr (subject_reply_text env parent_nick site_name)))))"

definition replyContent ::
  "env \<Rightarrow> obj \<Rightarrow> obj \<Rightarrow> obj \<Rightarrow> jsval \<Rightarrow> jsval \<Rightarrow> string \<Rightarrow> error + string" where
  "replyContent env currentComment config parentComment IMG PARENT_IMG POST_URL =
     (if truthy (config ''MAIL_TEMPLATE'')
      then renderTemplate (config ''MAIL_TEMPLATE'')
             [(''IMG'', IMG),
              (''PARENT_IMG'', PARENT_IMG),
              (''SITE_URL'', config ''SITE_URL''),
              (''SITE_NAME'', config ''SITE_NAME''),
              (''PARENT_NICK'', parentComment ''nick''),
              (''PARENT_COMMENT'', parentComment ''comment''),
              (''NICK'', currentComment ''nick''),
              (''COMMENT'', currentComment ''comment''),
              (''POST_URL'', JStr POST_URL)]
      else
        and_then (js_String (config ''SITE_URL''))
          (\<lambda>site_url. and_then (js_String (config ''SITE_NAME''))
             (\<lambda>site_name. and_then (js_String (parentComment ''nick''))
                (\<lambda>parent_nick. and_then (js_String (parentComment ''comment''))
                   (\<lambda>parent_text. and_then (js_String (currentComment ''nick''))
                      (\<lambda>nick. and_then (js_String (currentComment ''comment''))
                         (\<lambda>text. Inr (html_reply_text env site_url site_name parent_nick
                                          parent_text nick text POST_URL))))))))"

text \<open>The same for \<^verbatim>\<open>noticeReply\<close>: two avatars, permalink, subject, body.\<close>

definition replyMessage :: "env \<Rightarrow> obj \<Rightarrow> obj \<Rightarrow> obj \<Rightarrow> error + jsval \<times> string" where
  "replyMessage env currentComment config parentComment =
     and_then (getAvatar env currentComment config)
       (\<lambda>IMG. and_then (getAvatar env parentComment config)
          (\<lambda>PARENT_IMG. and_then (postUrl currentComment config)
             (\<lambda>POST_URL. and_then (replySubject env config parentComment)
                (\<lambda>emailSubject.
                   and_then (replyContent env currentComment config parentComment IMG
                               PARENT_IMG POST_URL)
                     (\<lambda>emailContent. Inr (emailSubject, emailContent))))))"

definition replyMail :: "obj \<Rightarrow> obj \<Rightarrow> jsval \<Rightarrow> string \<Rightarrow> error + mail_message" where
  "replyMail config parentComment emailSubject emailContent =
     and_then (fromHeader config)
       (\<lambda>sender. Inr \<lparr>mail_from = sender,
                       mail_to = parentComment ''mail'',
                       mail_subject = emailSubject,
                       mail_html = JStr emailContent\<rparr>)"

text \<open>
  \<^verbatim>\<open>noticeReply\<close>. The test \<^verbatim>\<open>!parentComment\<close> is true for a parent comment that is
  \<^verbatim>\<open>null\<close>, absent or another falsy value: \<open>None\<close>.
\<close>

definition noticeReply ::
  "env \<Rightarrow> obj \<Rightarrow> obj option \<Rightarrow> obj option \<Rightarrow> state \<Rightarrow> (error + send_result option) \<times> state"
  where
  "noticeReply env currentComment config0 parent st =
     (if \<not> truthy (currentComment ''pid'') then (Inr None, console LogInfo NoParentId st)
      else
        case parent of
          None \<Rightarrow> (Inr None, console LogInfo ParentNotFound st)
        | Some parentComment \<Rightarrow>
            (case noMailer env config0 st of
               (Inl e, st1) \<Rightarrow> (Inl e, st1)
             | (Inr True, st1) \<Rightarrow> (Inr None, console LogInfo MailerUnavailable st1)
             | (Inr False, st1) \<Rightarrow>
                 (case config0 of
                    None \<Rightarrow> (Inl TypeError, st1)
                  | Some config \<Rightarrow>
                      (case equalsMail (config ''BLOGGER_EMAIL'') (parentComment ''mail'') of
                         Inl e \<Rightarrow> (Inl e, st1)
                       | Inr True \<Rightarrow> (Inr None, console LogInfo ReplyToOwnerNoNotice st1)
                       | Inr False \<Rightarrow>
                           (case equalsMail (currentComment ''mail'') (parentComment ''mail'') of
                              Inl e \<Rightarrow> (Inl e, st1)
                            | Inr True \<Rightarrow> (Inr None, console LogInfo SelfReplyNoNotice st1)
                            | Inr False \<Rightarrow>
                                (case replyMessage env currentComment config parentComment of
                                   Inl e \<Rightarrow> (Inl e, st1)
                                 | Inr (emailSubject, emailContent) \<Rightarrow>
                                     (case sendMail env
                                             (replyMail config parentComment emailSubject
                                                emailContent)
                                             st1 of
                                        (sendResult, st2) \<Rightarrow>
                                          (Inr (Some sendResult),
                                           console LogInfo (ReplyNoticeResult sendResult)
                                             st2))))))))"

section \<open>Instant-message push\<close>

definition pushSubject :: "env \<Rightarrow> obj \<Rightarrow> error + jsval" where
  "pushSubject env config =
     (if truthy (config ''MAIL_SUBJECT_ADMIN'') then Inr (config ''MAIL_SUBJECT_ADMIN'')
      else and_then (js_String (config ''SITE_NAME''))
             (\<lambda>name. Inr (JStr (subject_push_text env name))))"

text \<open>
  What \<^verbatim>\<open>noticePushoo\<close> computes between its guards and the push call, in the order of the
  source: the comment without its tags, the permalink, the title, the text. Any of them can
  throw.
\<close>

definition pushMessage :: "env \<Rightarrow> obj \<Rightarrow> obj \<Rightarrow> error + push_message" where
  "pushMessage env comment config =
     and_then (stripHtml (comment ''comment''))
       (\<lambda>COMMENT. and_then (postUrl comment config)
          (\<lambda>POST_URL. and_then (pushSubject env config)
             (\<lambda>subject. and_then (js_String (comment ''nick''))
                (\<lambda>nick. and_then (js_String (comment ''mail''))
                   (\<lambda>mail. and_then (js_String (comment ''ip''))
                      (\<lambda>ip. Inr \<lparr>push_token = config ''PUSHOO_TOKEN'',
                                   push_title = subject,
                                   push_content =
                                     content_push_text env nick mail ip COMMENT POST_URL,
                                   push_bark_url = POST_URL\<rparr>))))))"

text \<open>
  \<^verbatim>\<open>noticePushoo\<close>: nothing in it is inside a \<^verbatim>\<open>try\<close>, the push call included, nor the
  first reading of the config.
\<close>

definition noticePushoo ::
  "env \<Rightarrow> obj \<Rightarrow> obj option \<Rightarrow> state \<Rightarrow> (error + send_result option) \<times> state" where
  "noticePushoo env comment config0 st =
     (case config0 of
        None \<Rightarrow> (Inl TypeError, st)
      | Some config \<Rightarrow>
          if \<not> truthy (config ''PUSHOO_CHANNEL'') \<or> \<not> truthy (config ''PUSHOO_TOKEN'')
          then (Inr None, console LogInfo PushooNotConfigured st)
          else
            case equalsMail (config ''BLOGGER_EMAIL'') (comment ''mail'') of
              Inl e \<Rightarrow> (Inl e, st)
            | Inr True \<Rightarrow> (Inr None, console LogInfo OwnerCommentNoNotice st)
            | Inr False \<Rightarrow>
                (case pushMessage env comment config of
                   Inl e \<Rightarrow> (Inl e, st)
                 | Inr msg \<Rightarrow>
                     (case pushoo env (config ''PUSHOO_CHANNEL'') msg of
                        Inl m \<Rightarrow>
                          (Inl (Rejected Pushoo m),
                           emit (PushooCall (config ''PUSHOO_CHANNEL'') msg) st)
                      | Inr sendResult \<Rightarrow>
                          (Inr None,
                           console LogInfo (PushNoticeResult sendResult)
                             (emit (PushooCall (config ''PUSHOO_CHANNEL'') msg) st)))))"

section \<open>The fan-out\<close>

text \<open>
  \<^verbatim>\<open>sendNotice\<close>. The three attempts of \<^verbatim>\<open>Promise.all\<close> are started in the order of the
  array and share \<^verbatim>\<open>transporter\<close>; the model runs each to its end before the next. In the
  source an attempt gives way at each \<^verbatim>\<open>await\<close>, so the events of different attempts can
  come in another order there; which events occur is the same, since the transporter is set
  before its verification is awaited and is not reset when the verification fails. The
  \<^verbatim>\<open>catch\<close> on the join logs one line when any attempt rejects; the join then settles at
  once, and the attempts still running go on after \<^verbatim>\<open>sendNotice\<close> has returned.

  The first line reads \<^verbatim>\<open>config.NOTIFY_SPAM\<close> only for a comment flagged as spam; with a
  config that is \<^verbatim>\<open>null\<close> this raises a TypeError outside the join, and \<^verbatim>\<open>sendNotice\<close>
  rejects.
\<close>

definition notifySpamOff :: "obj \<Rightarrow> obj option \<Rightarrow> error + bool" where
  "notifySpamOff comment config0 =
     (if \<not> truthy (comment ''isSpam'') then Inr False
      else case config0 of
             None \<Rightarrow> Inl TypeError
           | Some config \<Rightarrow> Inr (config ''NOTIFY_SPAM'' = JStr ''false''))"

definition sendNotice ::
  "env \<Rightarrow> obj \<Rightarrow> obj option \<Rightarrow> obj option \<Rightarrow> state \<Rightarrow> (error + unit) \<times> state" where
  "sendNotice env comment config parent st =
     (case notifySpamOff comment config of
        Inl e \<Rightarrow> (Inl e, st)
      | Inr True \<Rightarrow> (Inr (), st)
      | Inr False \<Rightarrow>
          (case noticeMaster env comment config st of
             (r1, st1) \<Rightarrow>
               (case noticeReply env comment config parent st1 of
                  (r2, st2) \<Rightarrow>
                    (case noticePushoo env comment config st2 of
                       (r3, st3) \<Rightarrow>
                         if isl r1 \<or> isl r2 \<or> isl r3
                         then (Inr (), console LogError NoticeException st3)
                         else (Inr (), st3)))))"

section \<open>Spam classification\<close>

text \<open>The inner \<^verbatim>\<open>try\<close> of the cloud-moderation branch: a failure leaves \<^verbatim>\<open>isSpam\<close> undefined.\<close>

definition tmsCheck :: "env \<Rightarrow> obj \<Rightarrow> obj \<Rightarrow> state \<Rightarrow> jsval \<times> state" where
  "tmsCheck env comment config st =
     (case tms_client env (config ''QCLOUD_SECRET_ID'') (config ''QCLOUD_SECRET_KEY'') of
        Inl m \<Rightarrow> (JUndefined, console LogWarn (TmsCheckFailed (Rejected Tms m)) st)
      | Inr u \<Rightarrow>
          (case base64_utf8 env (comment ''comment'') of
             Inl m \<Rightarrow> (JUndefined, console LogWarn (TmsCheckFailed (Rejected Crypto m)) st)
           | Inr content \<Rightarrow>
               (let params =
                      \<lparr>tms_Content = content,
                       tms_DataId = js_or (comment ''id'') (comment ''_id''),
                       tms_Nickname = comment ''nick'',
                       tms_IP = comment ''ip'',
                       tms_BizType =
                         (if truthy (config ''QCLOUD_CMS_BIZTYPE'')
                          then config ''QCLOUD_CMS_BIZTYPE'' else JUndefined)\<rparr>;
                    st1 = emit (TmsTextModeration params) (console LogInfo (TmsRequest params) st)
                in case tms_moderation env params of
                     Inl m \<Rightarrow> (JUndefined, console LogWarn (TmsCheckFailed (Rejected Tms m)) st1)
                   | Inr suggestion \<Rightarrow>
                       (JBool (suggestion \<noteq> JStr ''Pass''),
                        console LogInfo (TmsResponse suggestion) st1))))"

text \<open>The Akismet branch; nothing in it is caught before the outer \<^verbatim>\<open>catch\<close>.\<close>

definition akismetCheck :: "env \<Rightarrow> obj \<Rightarrow> obj \<Rightarrow> state \<Rightarrow> (error + jsval) \<times> state" where
  "akismetCheck env comment config st =
     (case akismet_client env (config ''AKISMET_KEY'') (config ''SITE_URL'') of
        Inl m \<Rightarrow> (Inl (Rejected Akismet m), st)
      | Inr u \<Rightarrow>
          (let st1 = emit (AkismetVerifyKey (config ''AKISMET_KEY'') (config ''SITE_URL'')) st in
           case akismet_verify env (config ''AKISMET_KEY'') (config ''SITE_URL'') of
             Inl m \<Rightarrow> (Inl (Rejected Akismet m), st1)
           | Inr isValid \<Rightarrow>
               if \<not> isValid
               then (Inr JUndefined,
                     console LogWarn (AkismetKeyUnusable (config ''AKISMET_KEY'')) st1)
               else
                 (let params =
                        \<lparr>user_ip = comment ''ip'',
                         user_agent = comment ''ua'',
                         permalink = comment ''href'',
                         comment_type =
                           (if truthy (comment ''rid'') then ''reply'' else ''comment''),
                         comment_author = comment ''nick'',
                         comment_author_email = comment ''mail'',
                         comment_author_url = comment ''link'',
                         comment_content = comment ''comment''\<rparr>;
                      st2 = emit (AkismetCheckSpam (config ''AKISMET_KEY'') (config ''SITE_URL'')
                                    params) st1
                  in case akismet_check env (config ''AKISMET_KEY'') (config ''SITE_URL'')
                            params of
                       Inl m \<Rightarrow> (Inl (Rejected Akismet m), st2)
                     | Inr verdict \<Rightarrow>
                         (Inr (JBool verdict),
                          console LogInfo (SpamCheckResult (JBool verdict)) st2))))"

text \<open>
  The outer \<^verbatim>\<open>try\<close> of \<^verbatim>\<open>postCheckSpam\<close>: \<open>Inl\<close> is the error thrown in it. Every path but
  the early \<^verbatim>\<open>return\<close> on an unusable key ends with the line that logs the verdict.
\<close>

definition postCheckSpam_try ::
  "env \<Rightarrow> obj \<Rightarrow> obj option \<Rightarrow> state \<Rightarrow> (error + jsval) \<times> state" where
  "postCheckSpam_try env comment config0 st =
     (if truthy (comment ''isSpam'')
      then (Inr (JBool True), console LogInfo (SpamCheckResult (JBool True)) st)
      else
        case config0 of
          None \<Rightarrow> (Inl TypeError, st)
        | Some config \<Rightarrow>
            (case equalsMail (config ''BLOGGER_EMAIL'') (comment ''mail'') of
               Inl e \<Rightarrow> (Inl e, st)
             | Inr True \<Rightarrow>
                 (Inr (JBool False), console LogInfo (SpamCheckResult (JBool False)) st)
             | Inr False \<Rightarrow>
                 if truthy (js_and (config ''QCLOUD_SECRET_ID'') (config ''QCLOUD_SECRET_KEY''))
                 then (case tmsCheck env comment config st of
                         (isSpam, st1) \<Rightarrow>
                           (Inr isSpam, console LogInfo (SpamCheckResult isSpam) st1))
                 else if truthy (config ''AKISMET_KEY'')
                 then akismetCheck env comment config st
                 else (Inr JUndefined, console LogInfo (SpamCheckResult JUndefined) st)))"

definition postCheckSpam ::
  "env \<Rightarrow> obj \<Rightarrow> obj option \<Rightarrow> state \<Rightarrow> (error + jsval) \<times> state" where
  "postCheckSpam env comment config st =
     (case postCheckSpam_try env comment config st of
        (Inr isSpam, st1) \<Rightarrow> (Inr isSpam, st1)
      | (Inl err, st1) \<Rightarrow> (Inr JUndefined, console LogError (SpamCheckException err) st1))"

section \<open>QQ avatar\<close>

definition getQQAvatar :: "env \<Rightarrow> jsval \<Rightarrow> state \<Rightarrow> jsval \<times> state" where
  "getQQAvatar env qq st =
     (case qq of
        JStr s \<Rightarrow>
          (let url = ''https://aq.qq.com/cn2/get_img/get_face?img_type=3&uin='' @ remove_qq_com s;
               st1 = emit (HttpGet url) st
           in case http_get env url of
                Inl m \<Rightarrow> (JNull, console LogWarn (QQAvatarFailed (Rejected Http m)) st1)
              | Inr v \<Rightarrow> (js_or v JNull, st1))
      | _ \<Rightarrow> (JNull, console LogWarn (QQAvatarFailed TypeError) st))"

section \<open>Handlers\<close>

definition SUCCESS :: int where "SUCCESS = 0"
definition FAIL :: int where "FAIL = 1000"
definition NEED_LOGIN :: int where "NEED_LOGIN = 1024"
definition FORBIDDEN :: int where "FORBIDDEN = 1403"

text \<open>
  The \<^verbatim>\<open>data\<close> of a request: each handler reads the properties it destructures. The
  comment, the config and the event are \<open>None\<close> when \<^verbatim>\<open>null\<close> or absent; the parent comment
  is \<open>None\<close> when it is falsy.
\<close>

record request_data =
  data_comment :: "obj option"
  data_config :: "obj option"
  data_parentComment :: "obj option"
  data_event :: "obj option"
  data_isAdmin :: jsval
  data_mail :: jsval

datatype message =
    ErrorMessage error
  | NotQQMail
  | LoginFirst
  | UnknownOperation
  | DirectAccessForbidden

text \<open>A response object; a property that is not set is \<^verbatim>\<open>undefined\<close> or \<open>None\<close>.\<close>

record response =
  code :: "int option"
  isSpam :: jsval
  avatar :: jsval
  message :: "message option"
  result :: "string option"

definition empty_response :: response where
  "empty_response =
     \<lparr>code = None, isSpam = JUndefined, avatar = JUndefined, message = None, result = None\<rparr>"

text \<open>
  Step 1 of \<^verbatim>\<open>handlePostSubmit\<close>. The test \<^verbatim>\<open>isQQ(comment.mail)\<close> stands before the
  inner \<^verbatim>\<open>try\<close>: when it throws, the step throws (\<open>Inl\<close>). What the inner \<^verbatim>\<open>try\<close> holds
  cannot throw out of it. The comment is updated in place.
\<close>

definition fetchQQAvatar :: "env \<Rightarrow> obj \<Rightarrow> state \<Rightarrow> (error + obj) \<times> state" where
  "fetchQQAvatar env comment st =
     (if truthy (comment ''avatar'') then (Inr comment, st)
      else
        case isQQ (comment ''mail'') of
          Inl e \<Rightarrow> (Inl e, st)
        | Inr False \<Rightarrow> (Inr comment, st)
        | Inr True \<Rightarrow>
            (case strip_qq_suffix (comment ''mail'') of
               Inl e \<Rightarrow> (Inr comment, console LogWarn (QQAvatarFailed e) st)
             | Inr qqNumber \<Rightarrow>
                 (case getQQAvatar env qqNumber st of
                    (av, st1) \<Rightarrow>
                      if truthy av
                      then (Inr (comment(''avatar'' := av)),
                            console LogInfo (QQAvatarFetched av) st1)
                      else (Inr comment, st1))))"

text \<open>Step 2: the classifier is not called for a comment that is already flagged.\<close>

definition checkSpamStep :: "env \<Rightarrow> obj \<Rightarrow> obj option \<Rightarrow> state \<Rightarrow> jsval \<times> state" where
  "checkSpamStep env comment config st =
     (if \<not> truthy (comment ''isSpam'')
      then (case postCheckSpam env comment config st of
              (Inr v, st1) \<Rightarrow> (v, console LogInfo (SpamResult v) st1)
            | (Inl e, st1) \<Rightarrow> (comment ''isSpam'', console LogError (SpamFailed e) st1))
      else (comment ''isSpam'', st))"

text \<open>Step 3.\<close>

definition sendNoticeStep ::
  "env \<Rightarrow> obj \<Rightarrow> obj option \<Rightarrow> obj option \<Rightarrow> state \<Rightarrow> state" where
  "sendNoticeStep env comment config parent st =
     (case sendNotice env comment config parent st of
        (Inr u, st1) \<Rightarrow> console LogInfo NoticeDone st1
      | (Inl e, st1) \<Rightarrow> console LogError (NoticeFailed e) st1)"

text \<open>
  \<^verbatim>\<open>handlePostSubmit\<close>. Reading \<^verbatim>\<open>comment.avatar\<close> from a comment that is \<^verbatim>\<open>null\<close> or
  absent is a TypeError; it and an error of the test in step 1 reach the outer \<^verbatim>\<open>catch\<close>,
  which answers FAIL.
\<close>

definition handlePostSubmit :: "env \<Rightarrow> request_data \<Rightarrow> state \<Rightarrow> response \<times> state" where
  "handlePostSubmit env data st =
     (case data_comment data of
        None \<Rightarrow>
          (empty_response\<lparr>code := Some FAIL, message := Some (ErrorMessage TypeError)\<rparr>,
           console LogError (PostSubmitFailed TypeError) (console LogInfo PostSubmitStart st))
      | Some comment0 \<Rightarrow>
          (case fetchQQAvatar env comment0 (console LogInfo PostSubmitStart st) of
             (Inl e, st1) \<Rightarrow>
               (empty_response\<lparr>code := Some FAIL, message := Some (ErrorMessage e)\<rparr>,
                console LogError (PostSubmitFailed e) st1)
           | (Inr comment, st1) \<Rightarrow>
               (case checkSpamStep env comment (data_config data) st1 of
                  (spam, st2) \<Rightarrow>
                    (empty_response\<lparr>code := Some SUCCESS, isSpam := spam,
                                     avatar := comment ''avatar''\<rparr>,
                     sendNoticeStep env comment (data_config data) (data_parentComment data)
                       st2))))"

text \<open>
  The message of the test mail. Reading \<^verbatim>\<open>config.SENDER_EMAIL\<close> and \<^verbatim>\<open>event.mail\<close> raises
  a TypeError when the record is \<^verbatim>\<open>null\<close> or absent.
\<close>

definition testMail :: "env \<Rightarrow> obj option \<Rightarrow> obj option \<Rightarrow> error + mail_message" where
  "testMail env config0 event0 =
     (case config0 of
        None \<Rightarrow> Inl TypeError
      | Some config \<Rightarrow>
          (case event0 of
             None \<Rightarrow> Inl TypeError
           | Some event \<Rightarrow>
               Inr \<lparr>mail_from = config ''SENDER_EMAIL'',
                     mail_to =
                       js_or (js_or (event ''mail'') (config ''BLOGGER_EMAIL''))
                         (config ''SENDER_EMAIL''),
                     mail_subject = JStr (subject_test_text env),
                     mail_html = JStr (html_test_text env)\<rparr>))"

text \<open>
  \<^verbatim>\<open>handleEmailTest\<close>: the transporter is reset, and an error of the mailer is thrown on.
  Everything is inside one \<^verbatim>\<open>try\<close>, whose \<^verbatim>\<open>catch\<close> puts the error into the response.
\<close>

definition handleEmailTest :: "env \<Rightarrow> request_data \<Rightarrow> state \<Rightarrow> response \<times> state" where
  "handleEmailTest env data st =
     (if truthy (data_isAdmin data)
      then (case initMailer env (data_config data) True (st\<lparr>transporter := None\<rparr>) of
              (Inl e, st1) \<Rightarrow> (empty_response\<lparr>message := Some (ErrorMessage e)\<rparr>, st1)
            | (Inr ok, st1) \<Rightarrow>
                (case transporter st1 of
                   None \<Rightarrow> (empty_response\<lparr>message := Some (ErrorMessage TypeError)\<rparr>, st1)
                 | Some t \<Rightarrow>
                     (case testMail env (data_config data) (data_event data) of
                        Inl e \<Rightarrow> (empty_response\<lparr>message := Some (ErrorMessage e)\<rparr>, st1)
                      | Inr msg \<Rightarrow>
                          (case smtp_send env t msg of
                             Inl m \<Rightarrow>
                               (empty_response\<lparr>message := Some (ErrorMessage (Rejected Smtp m))\<rparr>,
                                emit (SendMail t msg) st1)
                           | Inr info \<Rightarrow>
                               (empty_response\<lparr>result := Some info\<rparr>,
                                emit (SendMail t msg) st1)))))
      else (empty_response\<lparr>code := Some NEED_LOGIN, message := Some LoginFirst\<rparr>, st))"

text \<open>\<^verbatim>\<open>handleGetQQAvatar\<close>: here the test of the mail is inside the \<^verbatim>\<open>try\<close>.\<close>

definition handleGetQQAvatar :: "env \<Rightarrow> request_data \<Rightarrow> state \<Rightarrow> response \<times> state" where
  "handleGetQQAvatar env data st =
     (case isQQ (data_mail data) of
        Inl e \<Rightarrow>
          (empty_response\<lparr>code := Some FAIL, message := Some (ErrorMessage e)\<rparr>,
           console LogError (QQAvatarFailed e) st)
      | Inr False \<Rightarrow> (empty_response\<lparr>code := Some FAIL, message := Some NotQQMail\<rparr>, st)
      | Inr True \<Rightarrow>
          (case strip_qq_suffix (data_mail data) of
             Inl e \<Rightarrow>
               (empty_response\<lparr>code := Some FAIL, message := Some (ErrorMessage e)\<rparr>,
                console LogError (QQAvatarFailed e) st)
           | Inr qqNumber \<Rightarrow>
               (case getQQAvatar env qqNumber st of
                  (av, st1) \<Rightarrow> (empty_response\<lparr>code := Some SUCCESS, avatar := av\<rparr>, st1))))"

section \<open>Request router\<close>

text \<open>
  \<^verbatim>\<open>onRequestPost\<close> on a request whose body parses to \<^verbatim>\<open>{ action, data }\<close>: the value of
  the header \<^verbatim>\<open>X-Twikoo-Internal\<close> (\<open>None\<close> when it is not sent), the action and the data.
  The three handlers destructure \<^verbatim>\<open>data\<close> in their parameter list: for a \<^verbatim>\<open>data\<close> that is
  \<^verbatim>\<open>null\<close> or absent (\<open>None\<close>) the call throws a TypeError, which the \<^verbatim>\<open>catch\<close> of the
  router answers with FAIL.
\<close>

definition onRequestPost ::
  "env \<Rightarrow> string option \<Rightarrow> jsval \<Rightarrow> request_data option \<Rightarrow> state \<Rightarrow> response \<times> state" where
  "onRequestPost env internal action data0 st =
     (if internal \<noteq> Some ''true''
      then (empty_response\<lparr>code := Some FORBIDDEN, message := Some DirectAccessForbidden\<rparr>, st)
      else if action \<in> {JStr ''postSubmit'', JStr ''emailTest'', JStr ''getQQAvatar''}
      then (case data0 of
              None \<Rightarrow>
                (empty_response\<lparr>code := Some FAIL, message := Some (ErrorMessage TypeError)\<rparr>,
                 console LogError (RouterFailed TypeError) st)
            | Some data \<Rightarrow>
                if action = JStr ''postSubmit'' then handlePostSubmit env data st
                else if action = JStr ''emailTest'' then handleEmailTest env data st
                else handleGetQQAvatar env data st)
      else (empty_response\<lparr>code := Some FAIL, message := Some UnknownOperation\<rparr>, st))"

section \<open>Reading a trace\<close>

fun is_mail :: "event \<Rightarrow> bool" where
  "is_mail (SendMail t m) = True"
| "is_mail e = False"

fun is_push :: "event \<Rightarrow> bool" where
  "is_push (PushooCall c m) = True"
| "is_push e = False"

text \<open>A call to one of the two spam-detection providers.\<close>

fun is_provider_call :: "event \<Rightarrow> bool" where
  "is_provider_call (TmsTextModeration p) = True"
| "is_provider_call (AkismetVerifyKey k b) = True"
| "is_provider_call (AkismetCheckSpam k b p) = True"
| "is_provider_call e = False"

fun is_http :: "event \<Rightarrow> bool" where
  "is_http (HttpGet u) = True"
| "is_http e = False"

text \<open>The lines that \<^verbatim>\<open>postCheckSpam\<close> and the step calling it write; every run writes one.\<close>

fun is_spam_check_line :: "event \<Rightarrow> bool" where
  "is_spam_check_line (Console l (SpamCheckResult v)) = True"
| "is_spam_check_line (Console l (SpamCheckException e)) = True"
| "is_spam_check_line (Console l (AkismetKeyUnusable k)) = True"
| "is_spam_check_line (Console l (SpamResult v)) = True"
| "is_spam_check_line (Console l (SpamFailed e)) = True"
| "is_spam_check_line e = False"

definition sent_mails :: "state \<Rightarrow> event list" where
  "sent_mails st = filter is_mail (trace st)"

definition pushes :: "state \<Rightarrow> event list" where
  "pushes st = filter is_push (trace st)"

definition provider_calls :: "state \<Rightarrow> event list" where
  "provider_calls st = filter is_provider_call (trace st)"

definition http_calls :: "state \<Rightarrow> event list" where
  "http_calls st = filter is_http (trace st)"

definition spam_check_lines :: "state \<Rightarrow> event list" where
  "spam_check_lines st = filter is_spam_check_line (trace st)"

text \<open>The line both \<^verbatim>\<open>noticeMaster\<close> and \<^verbatim>\<open>noticePushoo\<close> write when they skip the owner's own comment.\<close>

definition owner_skips :: "state \<Rightarrow> event list" where
  "owner_skips st = filter (\<lambda>e. e = Console LogInfo OwnerCommentNoNotice) (trace st)"


text \<open>The lines that the mailer and the three notification attempts write.\<close>

fun is_attempt_line :: "logmsg \<Rightarrow> bool" where
  "is_attempt_line SmtpConfigOk = True"
| "is_attempt_line (MailerInitFailed e) = True"
| "is_attempt_line MailerUnavailable = True"
| "is_attempt_line OwnerCommentNoNotice = True"
| "is_attempt_line PushConfiguredNoMail = True"
| "is_attempt_line (MasterNoticeResult r) = True"
| "is_attempt_line NoParentId = True"
| "is_attempt_line ParentNotFound = True"
| "is_attempt_line ReplyToOwnerNoNotice = True"
| "is_attempt_line SelfReplyNoNotice = True"
| "is_attempt_line (ReplyNoticeResult r) = True"
| "is_attempt_line PushooNotConfigured = True"
| "is_attempt_line (PushNoticeResult r) = True"
| "is_attempt_line m = False"


section \<open>Sample requests\<close>

text \<open>
  A world in which every collaborator answers, and one in which every call that leaves the
  process fails.
\<close>

definition env_up :: env where
  "env_up =
     \<lparr>create_transport = (\<lambda>t. Inr ()),
      smtp_verify = (\<lambda>t. Inr True),
      smtp_send = (\<lambda>t m. Inr ''250 OK''),
      pushoo = (\<lambda>c m. Inr ''pushed''),
      base64_utf8 = (\<lambda>v. Inr ''base64''),
      tms_client = (\<lambda>a b. Inr ()),
      tms_moderation = (\<lambda>p. Inr (JStr ''Pass'')),
      akismet_client = (\<lambda>k b. Inr ()),
      akismet_verify = (\<lambda>k b. Inr True),
      akismet_check = (\<lambda>k b p. Inr False),
      http_get = (\<lambda>u. Inr (JStr ''https://q.qlogo.cn/g'')),
      md5 = (\<lambda>v. Inr ''md5''),
      sha256 = (\<lambda>v. Inr ''sha256''),
      subject_admin_text = (\<lambda>n. n),
      html_admin_text = (\<lambda>u n k c p. c),
      subject_reply_text = (\<lambda>p n. n),
      html_reply_text = (\<lambda>u n pn pc k c p. c),
      subject_push_text = (\<lambda>n. n),
      content_push_text = (\<lambda>n m i c p. c),
      subject_test_text = ''test'',
      html_test_text = ''test''\<rparr>"

definition env_down :: env where
  "env_down =
     env_up\<lparr>smtp_verify := (\<lambda>t. Inl ''verify failed''),
            smtp_send := (\<lambda>t m. Inl ''send failed''),
            pushoo := (\<lambda>c m. Inl ''push failed''),
            tms_client := (\<lambda>a b. Inl ''sdk failed''),
            tms_moderation := (\<lambda>p. Inl ''moderation failed''),
            akismet_verify := (\<lambda>k b. Inl ''akismet failed''),
            akismet_check := (\<lambda>k b p. Inl ''akismet failed''),
            http_get := (\<lambda>u. Inl ''lookup failed'')\<rparr>"

definition fresh :: state where
  "fresh = \<lparr>transporter = None, trace = []\<rparr>"

text \<open>A state in which a transporter was set up earlier.\<close>

definition warm :: state where
  "warm =
     \<lparr>transporter = Some (ServiceTransport (JStr ''u'') (JStr ''p'') (JStr ''QQ'')), trace = []\<rparr>"

text \<open>A site with SMTP, a push channel, mail to the owner switched on and Akismet.\<close>

definition site :: obj where
  "site =
     empty_obj
       (''SMTP_USER'' := JStr ''u'', ''SMTP_PASS'' := JStr ''p'', ''SMTP_HOST'' := JStr ''smtp.x'',
        ''SMTP_PORT'' := JStr ''465'', ''SMTP_SECURE'' := JStr ''true'',
        ''BLOGGER_EMAIL'' := JStr ''owner@x.org'', ''SITE_URL'' := JStr ''https://x'',
        ''SITE_NAME'' := JStr ''X'', ''PUSHOO_CHANNEL'' := JStr ''bark'',
        ''PUSHOO_TOKEN'' := JStr ''tok'', ''SC_MAIL_NOTIFY'' := JStr ''true'',
        ''AKISMET_KEY'' := JStr ''k'',
        ''MAIL_TEMPLATE_ADMIN'' := JStr ''Hi ${NICK}, ${COMMENT}'')"

definition bob :: obj where
  "bob =
     empty_obj
       (''nick'' := JStr ''Bob'', ''mail'' := JStr ''bob@y.org'', ''comment'' := JStr ''hello'',
        ''href'' := JStr ''https://x/y#old'', ''id'' := JStr ''abc'', ''pid'' := JStr ''p1'',
        ''ip'' := JStr ''1.2.3.4'')"

definition alice :: obj where
  "alice =
     empty_obj
       (''nick'' := JStr ''Al'', ''mail'' := JStr ''al@y.org'', ''comment'' := JStr ''first'',
        ''id'' := JStr ''p1'')"

definition submit :: request_data where
  "submit =
     \<lparr>data_comment = Some bob, data_config = Some site, data_parentComment = Some alice,
      data_event = Some empty_obj, data_isAdmin = JUndefined, data_mail = JUndefined\<rparr>"

text \<open>A comment sent under the owner's address, written with capitals and spaces around it.\<close>

definition owner_comment :: obj where
  "owner_comment = bob(''mail'' := JStr '' Owner@X.org '')"

text \<open>The same site with the switch for mail to the owner left unset.\<close>

definition push_site :: obj where
  "push_site = site(''SC_MAIL_NOTIFY'' := JUndefined)"

text \<open>A request for the avatar of an address that has a letter where the dot should be.\<close>

definition qq_request :: request_data where
  "qq_request = submit\<lparr>data_mail := JStr ''12345@qqxcom''\<rparr>"

text \<open>
  A comment whose mail is the JSON object \<^verbatim>\<open>{"toString": null}\<close>, which cannot be converted
  to a string, and a request that submits it.
\<close>

definition odd_comment :: obj where
  "odd_comment = bob(''mail'' := JObj [''toString''])"

definition odd_submit :: request_data where
  "odd_submit = submit\<lparr>data_comment := Some odd_comment\<rparr>"

text \<open>The sample comment without its text.\<close>

definition mute_comment :: obj where
  "mute_comment = bob(''comment'' := JUndefined)"

section \<open>Properties\<close>

subsection \<open>Steps that may throw\<close>

lemma and_then_Inl [simp]: "and_then (Inl e) f = Inl e"
  by (simp add: and_then_def)

lemma and_then_Inr [simp]: "and_then (Inr x) f = f x"
  by (simp add: and_then_def)

lemma and_then_eq_Inl: "and_then m f = Inl e \<longleftrightarrow> m = Inl e \<or> (\<exists>x. m = Inr x \<and> f x = Inl e)"
  by (cases m) simp_all

lemma and_then_eq_Inr: "and_then m f = Inr y \<longleftrightarrow> (\<exists>x. m = Inr x \<and> f x = Inr y)"
  by (cases m) simp_all

lemma js_String_error: "js_String v = Inl e \<Longrightarrow> e = TypeError"
  and js_join_error: "js_join vs = Inl e \<Longrightarrow> e = TypeError"
  by (induction v and vs rule: js_String_js_join.induct) (auto split: if_splits sum.splits)

lemma js_String_primitive: "primitive v \<Longrightarrow> \<exists>s. js_String v = Inr s"
  by (cases v) simp_all

subsection \<open>State and trace\<close>

lemma trace_emit [simp]: "trace (emit e st) = trace st @ [e]"
  by (simp add: emit_def)

lemma transporter_emit [simp]: "transporter (emit e st) = transporter st"
  by (simp add: emit_def)

lemma trace_console [simp]: "trace (console l m st) = trace st @ [Console l m]"
  by (simp add: console_def)

lemma transporter_console [simp]: "transporter (console l m st) = transporter st"
  by (simp add: console_def)

subsection \<open>Permalink\<close>

lemma substring0_indexOf:
  "c \<in> set s \<Longrightarrow> substring0 s (indexOf s c) = takeWhile (\<lambda>x. x \<noteq> c) s"
  by (simp add: substring0_def indexOf_def takeWhile_eq_take [symmetric])

text \<open>
  C7. \<^verbatim>\<open>appendHashToUrl\<close>: for a url that contains \<^verbatim>\<open>#\<close> the result is the part of the url
  before its first \<^verbatim>\<open>#\<close>, then \<^verbatim>\<open>#\<close> and the new hash; for a url without \<^verbatim>\<open>#\<close> it is the
  url, then \<^verbatim>\<open>#\<close> and the hash. So \<^verbatim>\<open>https://x/y#old\<close> with id \<^verbatim>\<open>abc\<close> gives
  \<^verbatim>\<open>https://x/y#abc\<close>.
\<close>

theorem appendHashToUrl_permalink:
  "(CHR ''#'' \<in> set url \<longrightarrow>
      appendHashToUrl (JStr url) (JStr hash)
        = Inr (takeWhile (\<lambda>c. c \<noteq> CHR ''#'') url @ ''#'' @ hash))
   \<and> (CHR ''#'' \<notin> set url \<longrightarrow>
      appendHashToUrl (JStr url) (JStr hash) = Inr (url @ ''#'' @ hash))"
proof (cases "CHR ''#'' \<in> set url")
  case True
  then have "indexOf url (CHR ''#'') \<noteq> - 1"
    by (simp add: indexOf_def)
  with True show ?thesis
    by (simp add: appendHashToUrl_def substring0_indexOf)
next
  case False
  then show ?thesis
    by (simp add: appendHashToUrl_def indexOf_def)
qed

theorem appendHashToUrl_permalink_witness:
  "CHR ''#'' \<in> set ''https://x/y#old''
   \<and> appendHashToUrl (JStr ''https://x/y#old'') (JStr ''abc'') = Inr ''https://x/y#abc''
   \<and> CHR ''#'' \<notin> set ''https://x/y''
   \<and> appendHashToUrl (JStr ''https://x/y'') (JStr ''abc'') = Inr (''https://x/y'' @ ''#abc'')"
  using appendHashToUrl_permalink [of "''https://x/y#old''" "''abc''"]
    appendHashToUrl_permalink [of "''https://x/y''" "''abc''"]
  by simp

subsection \<open>The post-submit handler\<close>

lemma fetchQQAvatar_resolves:
  "truthy (c ''avatar'') \<or> js_String (c ''mail'') = Inr s \<Longrightarrow> \<exists>c'. fst (fetchQQAvatar env c st) = Inr c'"
  by (auto simp: fetchQQAvatar_def isQQ_def split: sum.splits bool.splits prod.splits)

lemma fetchQQAvatar_throws:
  "\<not> truthy (c ''avatar'') \<Longrightarrow> js_String (c ''mail'') = Inl e \<Longrightarrow> fst (fetchQQAvatar env c st) = Inl e"
  by (simp add: fetchQQAvatar_def isQQ_def)

text \<open>
  C1, as the code has it. A \<^verbatim>\<open>postSubmit\<close> request whose data holds a comment is answered
  with code SUCCESS, whatever the config is (\<^verbatim>\<open>null\<close> included) and whatever the
  collaborators do (the spam check and every notification may fail), provided the test of the
  comment's mail for a QQ address can be made: the comment has an avatar, or its mail can be
  converted to a string. This holds for the handler and for the router that calls it. For a
  comment without avatar whose mail cannot be converted to a string the test throws before
  the inner \<^verbatim>\<open>try\<close>, and the answer is FAIL.
\<close>

theorem handlePostSubmit_success:
  "data_comment data = Some c \<Longrightarrow>
     (truthy (c ''avatar'') \<or> js_String (c ''mail'') = Inr s \<longrightarrow>
        code (fst (handlePostSubmit env data st)) = Some SUCCESS
        \<and> code (fst (onRequestPost env (Some ''true'') (JStr ''postSubmit'') (Some data) st))
            = Some SUCCESS)
     \<and> (\<not> truthy (c ''avatar'') \<and> js_String (c ''mail'') = Inl e \<longrightarrow>
        code (fst (handlePostSubmit env data st)) = Some FAIL)"
  using fetchQQAvatar_resolves [of c s env "console LogInfo PostSubmitStart st"]
    fetchQQAvatar_throws [of c e env "console LogInfo PostSubmitStart st"]
  by (auto simp: onRequestPost_def handlePostSubmit_def empty_response_def split: prod.splits sum.splits)

text \<open>
  C1 as stated fails for a comment whose mail is the object \<^verbatim>\<open>{"toString": null}\<close>: the
  request holds a comment and a config, and the answer is FAIL.
\<close>

theorem object_mail_fails:
  "data_comment odd_submit = Some odd_comment
   \<and> odd_comment ''mail'' = JObj [''toString'']
   \<and> code (fst (handlePostSubmit env_up odd_submit fresh)) = Some FAIL"
proof (intro conjI)
  show "data_comment odd_submit = Some odd_comment" by (simp add: odd_submit_def)
  show "odd_comment ''mail'' = JObj [''toString'']" by (simp add: odd_comment_def)
  show "code (fst (handlePostSubmit env_up odd_submit fresh)) = Some FAIL" by code_simp
qed

theorem handlePostSubmit_success_witness:
  "data_comment submit = Some bob \<and> js_String (bob ''mail'') = Inr ''bob@y.org''
   \<and> code (fst (handlePostSubmit env_down submit fresh)) = Some SUCCESS
   \<and> code (fst (onRequestPost env_down (Some ''true'') (JStr ''postSubmit'') (Some submit) fresh))
       = Some SUCCESS
   \<and> data_comment odd_submit = Some odd_comment
   \<and> \<not> truthy (odd_comment ''avatar'') \<and> js_String (odd_comment ''mail'') = Inl TypeError
   \<and> code (fst (handlePostSubmit env_down odd_submit fresh)) = Some FAIL"
proof -
  have a: "data_comment submit = Some bob" "js_String (bob ''mail'') = Inr ''bob@y.org''"
    by (simp_all add: submit_def bob_def)
  have b: "data_comment odd_submit = Some odd_comment" "\<not> truthy (odd_comment ''avatar'')"
    "js_String (odd_comment ''mail'') = Inl TypeError"
    by (simp_all add: odd_submit_def odd_comment_def bob_def empty_obj_def)
  show ?thesis
    using a b
      handlePostSubmit_success [where data = submit and c = bob and s = "''bob@y.org''"
        and env = env_down and st = fresh]
      handlePostSubmit_success [where data = odd_submit and c = odd_comment and e = TypeError
        and env = env_down and st = fresh]
    by simp
qed

text \<open>Without a comment the handler answers FAIL as well.\<close>

lemma handlePostSubmit_no_comment:
  "code (fst (handlePostSubmit env (data\<lparr>data_comment := None\<rparr>) st)) = Some FAIL"
  by (simp add: handlePostSubmit_def empty_response_def)

text \<open>
  A config that is \<^verbatim>\<open>null\<close> does not change the answer: what fails for it fails inside the
  steps. A request without data is answered with FAIL by the router.
\<close>

lemma handlePostSubmit_null_config:
  "code (fst (handlePostSubmit env_down (submit\<lparr>data_config := None\<rparr>) fresh)) = Some SUCCESS
   \<and> code (fst (handlePostSubmit env_down
                   (submit\<lparr>data_comment := Some (bob(''isSpam'' := JBool True)),
                           data_config := None\<rparr>) warm)) = Some SUCCESS"
  by code_simp

lemma onRequestPost_no_data:
  "code (fst (onRequestPost env (Some ''true'') (JStr ''postSubmit'') None st)) = Some FAIL"
  by (simp add: onRequestPost_def empty_response_def)

subsection \<open>What an attempt can reject with\<close>

lemma normalizeMail_error: "normalizeMail v = Inl e \<Longrightarrow> e = TypeError"
  by (auto simp: normalizeMail_def and_then_eq_Inl dest: js_String_error)

lemma equalsMail_error: "equalsMail a b = Inl e \<Longrightarrow> e = TypeError"
  by (auto simp: equalsMail_def and_then_eq_Inl dest: normalizeMail_error split: if_splits)





lemma appendHashToUrl_error: "appendHashToUrl u h = Inl e \<Longrightarrow> e = TypeError"
  by (auto simp: appendHashToUrl_def and_then_eq_Inl dest: js_String_error js_join_error
      split: jsval.splits if_splits)

lemma js_plus_error: "js_plus a b = Inl e \<Longrightarrow> e = TypeError"
  by (auto simp: js_plus_def and_then_eq_Inl dest: js_String_error split: if_splits)

lemma postUrl_error: "postUrl c cfg = Inl e \<Longrightarrow> e = TypeError"
  by (auto simp: postUrl_def dest: appendHashToUrl_error js_plus_error
      split: if_splits sum.splits option.splits)









lemma stripHtml_error: "stripHtml v = Inl e \<Longrightarrow> e = TypeError"
  by (auto simp: stripHtml_def split: jsval.splits)

lemma pushSubject_error: "pushSubject env cfg = Inl e \<Longrightarrow> e = TypeError"
  by (auto simp: pushSubject_def and_then_eq_Inl dest: js_String_error split: if_splits)

lemma pushMessage_error: "pushMessage env c cfg = Inl e \<Longrightarrow> e = TypeError"
  by (auto simp: pushMessage_def and_then_eq_Inl
      dest: stripHtml_error postUrl_error pushSubject_error js_String_error)

lemma initMailer_quiet: "\<exists>ok. fst (initMailer env cfg False st) = Inr ok"
  by (auto simp: initMailer_def split: prod.splits sum.splits)

lemma noMailer_quiet: "\<exists>b. fst (noMailer env cfg st) = Inr b"
  using initMailer_quiet [of env cfg st]
  by (auto simp add: noMailer_def split: prod.splits sum.splits option.splits)



lemma noticePushoo_error:
  "fst (noticePushoo env c cfg st) = Inl e \<Longrightarrow> e = TypeError \<or> (\<exists>m. e = Rejected Pushoo m)"
  by (auto simp: noticePushoo_def dest: equalsMail_error pushMessage_error
      split: prod.splits sum.splits if_splits bool.splits option.splits)





lemma noticePushoo_null_config: "noticePushoo env c None st = (Inl TypeError, st)"
  by (simp add: noticePushoo_def)

subsection \<open>What the notification side writes to the trace\<close>

lemma verifyTransport_filter:
  assumes "\<And>t. \<not> P (SmtpVerify t)" and "\<not> P (Console LogInfo SmtpConfigOk)"
  shows "filter P (trace (snd (verifyTransport env t st))) = filter P (trace st)"
  using assms by (simp add: verifyTransport_def Let_def split: sum.splits)

lemma initMailer_filter:
  assumes "\<And>t. \<not> P (SmtpVerify t)" and "\<not> P (Console LogInfo SmtpConfigOk)"
    and "\<And>e. \<not> P (Console LogWarn (MailerInitFailed e))"
  shows "filter P (trace (snd (initMailer env cfg False st))) = filter P (trace st)"
proof -
  have "filter P (trace (snd (initMailer_try env cfg st))) = filter P (trace st)"
    using assms(1,2)
    by (simp add: initMailer_try_def verifyTransport_filter split: sum.splits option.splits)
  then show ?thesis
    using assms(3) by (auto simp: initMailer_def split: prod.splits sum.splits)
qed

lemma noMailer_filter:
  assumes "\<And>t. \<not> P (SmtpVerify t)" and "\<not> P (Console LogInfo SmtpConfigOk)"
    and "\<And>e. \<not> P (Console LogWarn (MailerInitFailed e))"
    and "noMailer env cfg st = (r, st1)"
  shows "filter P (trace st1) = filter P (trace st)"
proof (cases "transporter st")
  case None
  have "filter P (trace (snd (initMailer env cfg False st))) = filter P (trace st)"
    using assms(1,2,3) by (rule initMailer_filter)
  with None assms(4) show ?thesis
    by (auto simp: noMailer_def split: prod.splits sum.splits)
next
  case (Some t)
  with assms(4) show ?thesis by (simp add: noMailer_def)
qed

lemma sendMail_filter:
  assumes "\<And>t m. \<not> P (SendMail t m)" and "sendMail env msg st = (r, st1)"
  shows "filter P (trace st1) = filter P (trace st)"
  using assms by (auto simp: sendMail_def split: option.splits sum.splits)

lemma noticeMaster_filter:
  assumes "\<And>t. \<not> P (SmtpVerify t)" and "\<And>t m. \<not> P (SendMail t m)"
    and "\<And>l m. is_attempt_line m \<Longrightarrow> \<not> P (Console l m)"
  shows "filter P (trace (snd (noticeMaster env c cfg st))) = filter P (trace st)"
proof -
  obtain r st1 where n: "noMailer env cfg st = (r, st1)" by (cases "noMailer env cfg st")
  have 1: "filter P (trace st1) = filter P (trace st)"
    by (rule noMailer_filter [where P = P, OF assms(1) _ _ n]) (simp_all add: assms(3))
  show ?thesis
    using n 1 assms(2)
    by (auto simp: noticeMaster_def assms(3) dest!: sendMail_filter [where P = P, rotated]
        split: prod.splits sum.splits bool.splits option.splits)
qed

lemma noticeReply_filter:
  assumes "\<And>t. \<not> P (SmtpVerify t)" and "\<And>t m. \<not> P (SendMail t m)"
    and "\<And>l m. is_attempt_line m \<Longrightarrow> \<not> P (Console l m)"
  shows "filter P (trace (snd (noticeReply env c cfg p st))) = filter P (trace st)"
proof -
  obtain r st1 where n: "noMailer env cfg st = (r, st1)" by (cases "noMailer env cfg st")
  have 1: "filter P (trace st1) = filter P (trace st)"
    by (rule noMailer_filter [where P = P, OF assms(1) _ _ n]) (simp_all add: assms(3))
  show ?thesis
    using n 1 assms(2)
    by (auto simp: noticeReply_def assms(3) dest!: sendMail_filter [where P = P, rotated]
        split: prod.splits sum.splits bool.splits option.splits)
qed

lemma noticePushoo_filter:
  assumes "\<And>c m. \<not> P (PushooCall c m)"
    and "\<And>l m. is_attempt_line m \<Longrightarrow> \<not> P (Console l m)"
  shows "filter P (trace (snd (noticePushoo env c cfg st))) = filter P (trace st)"
  using assms(1)
  by (auto simp: noticePushoo_def assms(2) split: sum.splits bool.splits option.splits)

text \<open>
  The join of the three attempts: the attempts leave the selected events as they are, the
  \<^verbatim>\<open>catch\<close> adds its line when one of the three results is a rejection.
\<close>

lemma sendNotice_filter:
  assumes "\<And>t. \<not> P (SmtpVerify t)" and "\<And>t m. \<not> P (SendMail t m)"
    and "\<And>c m. \<not> P (PushooCall c m)"
    and "\<And>l m. is_attempt_line m \<Longrightarrow> \<not> P (Console l m)"
    and "noticeMaster env c cfg st = (r1, st1)" and "noticeReply env c cfg p st1 = (r2, st2)"
    and "noticePushoo env c cfg st2 = (r3, st3)"
  shows "filter P (trace (snd (sendNotice env c cfg p st)))
         = filter P (trace st)
           @ (if notifySpamOff c cfg = Inr False \<and> (isl r1 \<or> isl r2 \<or> isl r3)
              then filter P [Console LogError NoticeException] else [])"
proof -
  have "filter P (trace st1) = filter P (trace st)"
    using noticeMaster_filter [where P = P, OF assms(1,2,4), of env c cfg st] assms(5) by simp
  moreover have "filter P (trace st2) = filter P (trace st1)"
    using noticeReply_filter [where P = P, OF assms(1,2,4), of env c cfg p st1] assms(6) by simp
  moreover have "filter P (trace st3) = filter P (trace st2)"
    using noticePushoo_filter [where P = P, OF assms(3,4), of env c cfg st2] assms(7) by simp
  ultimately show ?thesis
    using assms(5,6,7) by (simp add: sendNotice_def split: sum.splits bool.splits)
qed




subsection \<open>The three attempts and their join\<close>




subsection \<open>Mail addresses\<close>

text \<open>Normalising a mail address twice is normalising it once.\<close>

lemma of_char_lower: "of_char (lower_char c) = (let n = (of_char c :: nat) in
      if (65 \<le> n \<and> n \<le> 90) \<or> (192 \<le> n \<and> n \<le> 222 \<and> n \<noteq> 215) then n + 32 else n)"
  by (auto simp: lower_char_def Let_def)

lemma js_space_lower [simp]: "js_space (lower_char c) = js_space c"
  by (auto simp: js_space_def of_char_lower Let_def)

lemma lower_char_idem [simp]: "lower_char (lower_char c) = lower_char c"
proof -
  have "of_char (lower_char (lower_char c)) = (of_char (lower_char c) :: nat)"
    by (auto simp: of_char_lower Let_def)
  then show ?thesis by (metis char_of_comp_of_char id_apply comp_apply)
qed

lemma dropWhile_space_lower:
  "dropWhile js_space (map lower_char s) = map lower_char (dropWhile js_space s)"
  by (induction s) auto

lemma js_trim_lower: "js_trim (toLowerCase s) = toLowerCase (js_trim s)"
  by (simp add: js_trim_def toLowerCase_def dropWhile_space_lower rev_map)

lemma dropWhile_idem: "dropWhile P (dropWhile P xs) = dropWhile P xs"
  by (induction xs) auto

lemma dropWhile_unchanged: "xs = [] \<or> \<not> P (hd xs) \<Longrightarrow> dropWhile P xs = xs"
  by (cases xs) auto

lemma js_trim_idem: "js_trim (js_trim s) = js_trim s"
proof -
  let ?a = "dropWhile js_space s"
  let ?b = "dropWhile js_space (rev ?a)"
  have "rev ?b = [] \<or> \<not> js_space (hd (rev ?b))"
  proof (cases "rev ?b = []")
    case True
    then show ?thesis by blast
  next
    case False
    then have "?a \<noteq> []" by (auto dest: set_dropWhileD)
    then have a: "\<not> js_space (hd ?a)" by (simp add: hd_dropWhile)
    obtain ys where "rev ?a = ys @ ?b" by (metis takeWhile_dropWhile_id)
    then have "?a = rev ?b @ rev ys" by (metis rev_append rev_rev_ident)
    then have "hd (rev ?b) = hd ?a" using False by (metis hd_append2)
    with a show ?thesis by simp
  qed
  then have "dropWhile js_space (rev ?b) = rev ?b"
    by (rule dropWhile_unchanged)
  then show ?thesis
    by (simp add: js_trim_def dropWhile_idem)
qed

lemma toLowerCase_idem: "toLowerCase (toLowerCase s) = toLowerCase s"
  by (simp add: toLowerCase_def)

lemma normalizeMail_JStr: "normalizeMail (JStr m) = Inr (toLowerCase (js_trim m))"
  by (simp add: normalizeMail_def)

lemma normalizeMail_idem: "normalizeMail v = Inr s \<Longrightarrow> normalizeMail (JStr s) = Inr s"
  by (auto simp: normalizeMail_def and_then_eq_Inr js_trim_lower js_trim_idem toLowerCase_idem)

lemma equalsMail_strings:
  "a \<noteq> [] \<Longrightarrow> b \<noteq> [] \<Longrightarrow> normalizeMail (JStr a) = normalizeMail (JStr b)
     \<Longrightarrow> equalsMail (JStr a) (JStr b) = Inr True"
  by (simp add: equalsMail_def normalizeMail_JStr)

lemma equalsMail_owner:
  assumes "e \<noteq> []" and "m \<noteq> []"
    and "normalizeMail (JStr m) = Inr e \<or> normalizeMail (JStr m) = normalizeMail (JStr e)"
  shows "equalsMail (JStr e) (JStr m) = Inr True"
proof -
  have "normalizeMail (JStr e) = normalizeMail (JStr m)"
    using assms(3) normalizeMail_idem [of "JStr m" e] by auto
  with assms(1,2) show ?thesis by (rule equalsMail_strings)
qed

subsection \<open>The owner's own comments\<close>

lemma noticeMaster_owner_comment:
  assumes "equalsMail (cfg ''BLOGGER_EMAIL'') (c ''mail'') = Inr True"
  shows "fst (noticeMaster env c (Some cfg) st) = Inr None
         \<and> sent_mails (snd (noticeMaster env c (Some cfg) st)) = sent_mails st"
proof -
  obtain r st1 where n: "noMailer env (Some cfg) st = (r, st1)" by (cases "noMailer env (Some cfg) st")
  have 1: "filter is_mail (trace st1) = filter is_mail (trace st)"
    by (rule noMailer_filter [where P = is_mail, OF _ _ _ n]) simp_all
  obtain b where "r = Inr b" using noMailer_quiet [of env "Some cfg" st] n by auto
  with n 1 assms show ?thesis
    by (simp add: noticeMaster_def sent_mails_def split: bool.splits)
qed

lemma noticePushoo_owner_comment:
  assumes "equalsMail (cfg ''BLOGGER_EMAIL'') (c ''mail'') = Inr True"
  shows "fst (noticePushoo env c (Some cfg) st) = Inr None
         \<and> pushes (snd (noticePushoo env c (Some cfg) st)) = pushes st"
  using assms by (simp add: noticePushoo_def pushes_def)

lemma postCheckSpam_owner_comment:
  assumes "equalsMail (cfg ''BLOGGER_EMAIL'') (c ''mail'') = Inr True"
  shows "fst (postCheckSpam env c (Some cfg) st) = Inr (JBool (truthy (c ''isSpam'')))
         \<and> provider_calls (snd (postCheckSpam env c (Some cfg) st)) = provider_calls st"
  using assms by (simp add: postCheckSpam_def postCheckSpam_try_def provider_calls_def)

text \<open>
  C3, as the code has it. For a comment whose mail address, normalised (trimmed, in lower
  case), equals the owner's address as configured (or as normalised), both addresses being
  non-empty strings: \<^verbatim>\<open>noticeMaster\<close> sends no mail, \<^verbatim>\<open>noticePushoo\<close> sends no push, and
  \<^verbatim>\<open>postCheckSpam\<close> calls no provider and answers \<^verbatim>\<open>false\<close>, unless the comment is already
  flagged as spam, in which case it answers \<^verbatim>\<open>true\<close>.
\<close>

theorem owner_comment_exempt:
  assumes "cfg ''BLOGGER_EMAIL'' = JStr e" and "e \<noteq> []"
    and "c ''mail'' = JStr m" and "m \<noteq> []"
    and "normalizeMail (JStr m) = Inr e \<or> normalizeMail (JStr m) = normalizeMail (JStr e)"
  shows "sent_mails (snd (noticeMaster env c (Some cfg) st)) = sent_mails st
         \<and> pushes (snd (noticePushoo env c (Some cfg) st)) = pushes st
         \<and> provider_calls (snd (postCheckSpam env c (Some cfg) st)) = provider_calls st
         \<and> fst (postCheckSpam env c (Some cfg) st) = Inr (JBool (truthy (c ''isSpam'')))"
proof -
  have "equalsMail (cfg ''BLOGGER_EMAIL'') (c ''mail'') = Inr True"
    using assms by (simp add: equalsMail_owner)
  then show ?thesis
    using noticeMaster_owner_comment [of cfg c env st] noticePushoo_owner_comment [of cfg c env st]
      postCheckSpam_owner_comment [of cfg c env st]
    by simp
qed

text \<open>
  C3 as stated fails for a comment of the owner that is already flagged: the flag is tested
  first, and the classification is \<^verbatim>\<open>true\<close>, not \<^verbatim>\<open>false\<close>.
\<close>

theorem flagged_owner_comment_is_spam:
  "normalizeMail (owner_comment ''mail'') = Inr ''owner@x.org''
   \<and> site ''BLOGGER_EMAIL'' = JStr ''owner@x.org''
   \<and> fst (postCheckSpam env_up (owner_comment(''isSpam'' := JBool True)) (Some site) fresh)
       = Inr (JBool True)"
  by code_simp

theorem owner_comment_exempt_witness:
  "site ''BLOGGER_EMAIL'' = JStr ''owner@x.org'' \<and> owner_comment ''mail'' = JStr '' Owner@X.org ''
   \<and> normalizeMail (JStr '' Owner@X.org '') = Inr ''owner@x.org''
   \<and> sent_mails (snd (noticeMaster env_up owner_comment (Some site) fresh)) = sent_mails fresh
   \<and> pushes (snd (noticePushoo env_up owner_comment (Some site) fresh)) = pushes fresh
   \<and> provider_calls (snd (postCheckSpam env_up owner_comment (Some site) fresh)) = provider_calls fresh
   \<and> \<not> truthy (owner_comment ''isSpam'')
   \<and> fst (postCheckSpam env_up owner_comment (Some site) fresh) = Inr (JBool False)"
proof -
  have a: "site ''BLOGGER_EMAIL'' = JStr ''owner@x.org''" by (simp add: site_def)
  have b: "owner_comment ''mail'' = JStr '' Owner@X.org ''" by (simp add: owner_comment_def)
  have c: "normalizeMail (JStr '' Owner@X.org '') = Inr ''owner@x.org''" by code_simp
  have d: "\<not> truthy (owner_comment ''isSpam'')"
    by (simp add: owner_comment_def bob_def empty_obj_def)
  show ?thesis
    using a b c d
      owner_comment_exempt [of site "''owner@x.org''" owner_comment "'' Owner@X.org ''" env_up fresh]
    by simp
qed

subsection \<open>Replies\<close>

lemma noticeReply_skip:
  assumes "\<not> truthy (cur ''pid'') \<or> parent = None
     \<or> (\<exists>p. parent = Some p
           \<and> (equalsMail (cfg ''BLOGGER_EMAIL'') (p ''mail'') = Inr True
               \<or> equalsMail (cur ''mail'') (p ''mail'') = Inr True))"
  shows "sent_mails (snd (noticeReply env cur (Some cfg) parent st)) = sent_mails st"
proof -
  obtain r st1 where n: "noMailer env (Some cfg) st = (r, st1)" by (cases "noMailer env (Some cfg) st")
  have 1: "filter is_mail (trace st1) = filter is_mail (trace st)"
    by (rule noMailer_filter [where P = is_mail, OF _ _ _ n]) simp_all
  with n assms show ?thesis
    by (auto simp: noticeReply_def sent_mails_def split: bool.splits option.splits sum.splits)
qed

text \<open>Comparing two values that are neither arrays nor objects never throws.\<close>

lemma equalsMail_total:
  "primitive a \<Longrightarrow> primitive b \<Longrightarrow> equalsMail a b = Inr True \<or> equalsMail a b = Inr False"
  using js_String_primitive [of a] js_String_primitive [of b]
  by (auto simp: equalsMail_def normalizeMail_def)

text \<open>With a mailer at hand and none of the four conditions, the reply mail does go out.\<close>

lemma noticeReply_sends:
  assumes "truthy (cur ''pid'')" and "transporter st = Some t"
    and "equalsMail (cfg ''BLOGGER_EMAIL'') (p ''mail'') = Inr False"
    and "equalsMail (cur ''mail'') (p ''mail'') = Inr False"
    and "replyMessage env cur cfg p = Inr (subject, html)"
    and "fromHeader cfg = Inr sender"
  shows "sent_mails (snd (noticeReply env cur (Some cfg) (Some p) st))
         = sent_mails st
           @ [SendMail t
                \<lparr>mail_from = sender, mail_to = p ''mail'', mail_subject = subject,
                 mail_html = JStr html\<rparr>]"
  using assms
  by (auto simp: noticeReply_def noMailer_def sendMail_def replyMail_def sent_mails_def
      split: sum.splits)

text \<open>
  C4. \<^verbatim>\<open>noticeReply\<close> sends no mail in each of four cases, whatever else holds: the
  comment has no \<^verbatim>\<open>pid\<close>; there is no parent comment; the parent's address is the owner's
  configured address; the commenter's address is the parent's address. An address is a
  non-empty string, and two addresses are compared as the code compares them, trimmed and in
  lower case.
\<close>

theorem noticeReply_skips:
  "(cur ''pid'' = JUndefined \<longrightarrow>
      sent_mails (snd (noticeReply env cur (Some cfg) parent st)) = sent_mails st)
   \<and> (parent = None \<longrightarrow>
      sent_mails (snd (noticeReply env cur (Some cfg) parent st)) = sent_mails st)
   \<and> (parent = Some p \<and> p ''mail'' = JStr pm \<and> pm \<noteq> [] \<and> cfg ''BLOGGER_EMAIL'' = JStr e
        \<and> e \<noteq> [] \<and> normalizeMail (JStr pm) = normalizeMail (JStr e) \<longrightarrow>
      sent_mails (snd (noticeReply env cur (Some cfg) parent st)) = sent_mails st)
   \<and> (parent = Some p \<and> p ''mail'' = JStr pm \<and> pm \<noteq> [] \<and> cur ''mail'' = JStr m \<and> m \<noteq> []
        \<and> normalizeMail (JStr m) = normalizeMail (JStr pm) \<longrightarrow>
      sent_mails (snd (noticeReply env cur (Some cfg) parent st)) = sent_mails st)"
  using noticeReply_skip [of cur parent cfg env st] equalsMail_strings [of e pm]
    equalsMail_strings [of m pm]
  by auto

theorem noticeReply_skips_witness:
  "(bob(''pid'' := JUndefined)) ''pid'' = JUndefined
   \<and> sent_mails (snd (noticeReply env_up (bob(''pid'' := JUndefined)) (Some site) (Some alice) fresh))
       = sent_mails fresh
   \<and> sent_mails (snd (noticeReply env_up bob (Some site) None fresh)) = sent_mails fresh
   \<and> (alice(''mail'' := JStr ''owner@x.org'')) ''mail'' = JStr ''owner@x.org''
   \<and> site ''BLOGGER_EMAIL'' = JStr ''owner@x.org''
   \<and> sent_mails (snd (noticeReply env_up bob (Some site)
                        (Some (alice(''mail'' := JStr ''owner@x.org''))) fresh))
       = sent_mails fresh
   \<and> (alice(''mail'' := JStr ''bob@y.org'')) ''mail'' = JStr ''bob@y.org''
   \<and> bob ''mail'' = JStr ''bob@y.org''
   \<and> sent_mails (snd (noticeReply env_up bob (Some site)
                        (Some (alice(''mail'' := JStr ''bob@y.org''))) fresh))
       = sent_mails fresh"
proof -
  have a: "site ''BLOGGER_EMAIL'' = JStr ''owner@x.org''" by (simp add: site_def)
  have b: "bob ''mail'' = JStr ''bob@y.org''" by (simp add: bob_def)
  show ?thesis
    using a b
      noticeReply_skips [where cur = "bob(''pid'' := JUndefined)" and env = env_up
        and cfg = site and parent = "Some alice" and st = fresh]
      noticeReply_skips [where cur = bob and env = env_up and cfg = site and parent = None
        and st = fresh]
      noticeReply_skips [where cur = bob and env = env_up and cfg = site
        and parent = "Some (alice(''mail'' := JStr ''owner@x.org''))"
        and p = "alice(''mail'' := JStr ''owner@x.org'')" and pm = "''owner@x.org''"
        and e = "''owner@x.org''" and st = fresh]
      noticeReply_skips [where cur = bob and env = env_up and cfg = site
        and parent = "Some (alice(''mail'' := JStr ''bob@y.org''))"
        and p = "alice(''mail'' := JStr ''bob@y.org'')" and pm = "''bob@y.org''"
        and m = "''bob@y.org''" and st = fresh]
    by simp
qed

text \<open>With none of the four conditions the reply goes out, to the parent's address.\<close>

lemma sample_reply_is_sent:
  "map (\<lambda>e. case e of SendMail t msg \<Rightarrow> mail_to msg | _ \<Rightarrow> JUndefined)
     (sent_mails (snd (noticeReply env_up bob (Some site) (Some alice) fresh))) = [JStr ''al@y.org'']"
  by code_simp

text \<open>With a config that is \<^verbatim>\<open>null\<close> no mail is sent either.\<close>

lemma noticeReply_null_config:
  "sent_mails (snd (noticeReply env cur None parent st)) = sent_mails st"
proof -
  obtain r st1 where n: "noMailer env None st = (r, st1)" by (cases "noMailer env None st")
  have 1: "filter is_mail (trace st1) = filter is_mail (trace st)"
    by (rule noMailer_filter [where P = is_mail, OF _ _ _ n]) simp_all
  with n show ?thesis
    by (auto simp: noticeReply_def sent_mails_def split: bool.splits option.splits sum.splits)
qed

subsection \<open>Comments already flagged as spam\<close>

lemma tmsCheck_lines:
  "tmsCheck env c cfg st = (r, st1) \<Longrightarrow>
     filter is_spam_check_line (trace st1) = filter is_spam_check_line (trace st)"
  by (auto simp: tmsCheck_def Let_def split: sum.splits)

lemma akismetCheck_lines:
  "akismetCheck env c cfg st = (r, st1) \<Longrightarrow>
     length (filter is_spam_check_line (trace st1))
       = (if isl r then 0 else 1) + length (filter is_spam_check_line (trace st))"
  by (auto simp: akismetCheck_def Let_def split: sum.splits if_splits)

lemma postCheckSpam_try_lines:
  "postCheckSpam_try env c cfg st = (r, st1) \<Longrightarrow>
     length (filter is_spam_check_line (trace st1))
       = (if isl r then 0 else 1) + length (filter is_spam_check_line (trace st))"
  by (auto simp: postCheckSpam_try_def dest: akismetCheck_lines tmsCheck_lines
      split: if_splits prod.splits sum.splits bool.splits option.splits)

lemma postCheckSpam_writes:
  "length (spam_check_lines (snd (postCheckSpam env c cfg st))) = Suc (length (spam_check_lines st))"
proof -
  obtain r st1 where t: "postCheckSpam_try env c cfg st = (r, st1)"
    by (cases "postCheckSpam_try env c cfg st")
  from postCheckSpam_try_lines [OF t] t show ?thesis
    by (cases r) (simp_all add: postCheckSpam_def spam_check_lines_def)
qed

lemma postCheckSpam_flagged:
  assumes "truthy (c ''isSpam'')"
  shows "fst (postCheckSpam env c cfg st) = Inr (JBool True)
         \<and> provider_calls (snd (postCheckSpam env c cfg st)) = provider_calls st"
  using assms by (simp add: postCheckSpam_def postCheckSpam_try_def provider_calls_def)

lemma fetchQQAvatar_filter:
  assumes "\<And>u. \<not> P (HttpGet u)" and "\<And>e. \<not> P (Console LogWarn (QQAvatarFailed e))"
    and "\<And>v. \<not> P (Console LogInfo (QQAvatarFetched v))"
  shows "filter P (trace (snd (fetchQQAvatar env c st))) = filter P (trace st)"
  using assms
  by (auto simp: fetchQQAvatar_def getQQAvatar_def Let_def
      split: sum.splits jsval.splits prod.splits bool.splits)

lemma fetchQQAvatar_isSpam:
  "fst (fetchQQAvatar env c st) = Inr c' \<Longrightarrow> c' ''isSpam'' = c ''isSpam''"
  by (auto simp: fetchQQAvatar_def split: sum.splits prod.splits bool.splits if_splits)

lemma attempt_line_not_spam_check: "is_attempt_line m \<Longrightarrow> \<not> is_spam_check_line (Console l m)"
  by (cases m) simp_all

lemma sendNoticeStep_filter:
  assumes "\<And>t. \<not> P (SmtpVerify t)" and "\<And>t m. \<not> P (SendMail t m)"
    and "\<And>c m. \<not> P (PushooCall c m)"
    and "\<And>l m. P (Console l m) \<Longrightarrow> is_spam_check_line (Console l m)"
  shows "filter P (trace (sendNoticeStep env c cfg p st)) = filter P (trace st)"
proof -
  obtain r1 st1 where m: "noticeMaster env c cfg st = (r1, st1)"
    by (cases "noticeMaster env c cfg st")
  obtain r2 st2 where r: "noticeReply env c cfg p st1 = (r2, st2)"
    by (cases "noticeReply env c cfg p st1")
  obtain r3 st3 where u: "noticePushoo env c cfg st2 = (r3, st3)"
    by (cases "noticePushoo env c cfg st2")
  have a: "\<And>l m. is_attempt_line m \<Longrightarrow> \<not> P (Console l m)"
    using assms(4) attempt_line_not_spam_check by blast
  have b: "\<not> P (Console LogError NoticeException)" "\<not> P (Console LogInfo NoticeDone)"
    "\<And>e. \<not> P (Console LogError (NoticeFailed e))"
    using assms(4) by fastforce+
  have "filter P (trace (snd (sendNotice env c cfg p st))) = filter P (trace st)"
    using sendNotice_filter [where P = P, OF assms(1,2,3) a m r u] b by simp
  then show ?thesis
    using b by (auto simp: sendNoticeStep_def split: prod.splits sum.splits)
qed

lemma handlePostSubmit_flagged:
  assumes "truthy (c ''isSpam'')" and "data_comment data = Some c"
  shows "(code (fst (handlePostSubmit env data st)) = Some SUCCESS \<longrightarrow>
            isSpam (fst (handlePostSubmit env data st)) = c ''isSpam'')
         \<and> filter is_provider_call (trace (snd (handlePostSubmit env data st)))
             = filter is_provider_call (trace st)
         \<and> filter is_spam_check_line (trace (snd (handlePostSubmit env data st)))
             = filter is_spam_check_line (trace st)"
proof -
  let ?s0 = "console LogInfo PostSubmitStart st"
  obtain r st1 where f: "fetchQQAvatar env c ?s0 = (r, st1)" by (cases "fetchQQAvatar env c ?s0")
  have 1: "filter P (trace st1) = filter P (trace st)"
    if "\<And>u. \<not> P (HttpGet u)" and "\<And>l m. P (Console l m) \<Longrightarrow> is_spam_check_line (Console l m)"
    for P
  proof -
    have "\<not> P (Console LogInfo PostSubmitStart)" "\<And>e. \<not> P (Console LogWarn (QQAvatarFailed e))"
      "\<And>v. \<not> P (Console LogInfo (QQAvatarFetched v))"
      using that(2) by fastforce+
    then show ?thesis
      using fetchQQAvatar_filter [where P = P, OF that(1), of env c ?s0] f by simp
  qed
  have 2: "filter P (trace (sendNoticeStep env c1 cfg p st1)) = filter P (trace st1)"
    if "\<And>t. \<not> P (SmtpVerify t)" and "\<And>t m. \<not> P (SendMail t m)" and "\<And>c m. \<not> P (PushooCall c m)"
      and "\<And>l m. P (Console l m) \<Longrightarrow> is_spam_check_line (Console l m)" for P cfg p c1
    using sendNoticeStep_filter [where P = P, OF that] .
  show ?thesis
  proof (cases r)
    case (Inl e)
    have "\<not> is_provider_call (Console LogError (PostSubmitFailed e))"
      "\<not> is_spam_check_line (Console LogError (PostSubmitFailed e))" by simp_all
    then show ?thesis
      using assms(2) f Inl 1 [of is_provider_call] 1 [of is_spam_check_line]
      by (simp add: handlePostSubmit_def empty_response_def SUCCESS_def FAIL_def)
  next
    case (Inr c1)
    have spam: "c1 ''isSpam'' = c ''isSpam''"
      using fetchQQAvatar_isSpam [of env c ?s0 c1] f Inr by simp
    have chk: "checkSpamStep env c1 (data_config data) st1 = (c ''isSpam'', st1)"
      using assms(1) spam by (simp add: checkSpamStep_def)
    show ?thesis
      using assms(2) f Inr chk 1 [of is_provider_call] 1 [of is_spam_check_line]
        2 [of is_provider_call] 2 [of is_spam_check_line]
      by (simp add: handlePostSubmit_def empty_response_def)
  qed
qed

text \<open>
  C5. For a comment whose \<^verbatim>\<open>isSpam\<close> is true (or any other truthy value),
  \<^verbatim>\<open>postCheckSpam\<close> answers \<^verbatim>\<open>true\<close> and calls neither provider, whatever the config is.
  \<^verbatim>\<open>handlePostSubmit\<close> does not call it at all for such a comment: no provider is called
  and none of the classifier's lines is written, and a response with code \<^verbatim>\<open>SUCCESS\<close>
  carries the comment's own flag.
\<close>

theorem flagged_comment_is_spam:
  assumes "truthy (c ''isSpam'')"
  shows "fst (postCheckSpam env c cfg st) = Inr (JBool True)
         \<and> provider_calls (snd (postCheckSpam env c cfg st)) = provider_calls st
         \<and> (data_comment data = Some c \<longrightarrow>
              (code (fst (handlePostSubmit env data st)) = Some SUCCESS \<longrightarrow>
                 isSpam (fst (handlePostSubmit env data st)) = c ''isSpam'')
              \<and> provider_calls (snd (handlePostSubmit env data st)) = provider_calls st
              \<and> spam_check_lines (snd (handlePostSubmit env data st)) = spam_check_lines st)"
  using assms postCheckSpam_flagged [of c env cfg st] handlePostSubmit_flagged [of c data env st]
  by (simp add: provider_calls_def spam_check_lines_def)

theorem flagged_comment_is_spam_witness:
  "truthy ((bob(''isSpam'' := JBool True)) ''isSpam'')
   \<and> fst (postCheckSpam env_up (bob(''isSpam'' := JBool True)) (Some site) fresh)
       = Inr (JBool True)
   \<and> provider_calls (snd (postCheckSpam env_up (bob(''isSpam'' := JBool True)) (Some site) fresh))
       = provider_calls fresh
   \<and> data_comment (submit\<lparr>data_comment := Some (bob(''isSpam'' := JBool True))\<rparr>)
       = Some (bob(''isSpam'' := JBool True))
   \<and> code (fst (handlePostSubmit env_up
                   (submit\<lparr>data_comment := Some (bob(''isSpam'' := JBool True))\<rparr>) fresh))
       = Some SUCCESS
   \<and> isSpam (fst (handlePostSubmit env_up
                     (submit\<lparr>data_comment := Some (bob(''isSpam'' := JBool True))\<rparr>) fresh))
       = JBool True
   \<and> provider_calls (snd (handlePostSubmit env_up
                             (submit\<lparr>data_comment := Some (bob(''isSpam'' := JBool True))\<rparr>) fresh))
       = provider_calls fresh"
proof -
  let ?c = "bob(''isSpam'' := JBool True)"
  let ?d = "submit\<lparr>data_comment := Some ?c\<rparr>"
  have k: "code (fst (handlePostSubmit env_up ?d fresh)) = Some SUCCESS"
    by code_simp
  show ?thesis
    using k flagged_comment_is_spam [of ?c env_up "Some site" fresh ?d]
    by simp
qed

text \<open>The same comment without the flag goes to the provider configured, here Akismet.\<close>

lemma unflagged_comment_is_checked:
  "length (provider_calls (snd (handlePostSubmit env_up submit fresh))) = 2"
  by code_simp

subsection \<open>Push instead of mail to the owner\<close>

lemma noticeMaster_push_configured:
  assumes "truthy (cfg ''PUSHOO_CHANNEL'')" and "truthy (cfg ''PUSHOO_TOKEN'')"
    and "cfg ''SC_MAIL_NOTIFY'' \<noteq> JStr ''true''"
  shows "sent_mails (snd (noticeMaster env c (Some cfg) st)) = sent_mails st
         \<and> (\<not> isl (equalsMail (cfg ''BLOGGER_EMAIL'') (c ''mail'')) \<longrightarrow>
              fst (noticeMaster env c (Some cfg) st) = Inr None)"
proof -
  obtain r st1 where n: "noMailer env (Some cfg) st = (r, st1)" by (cases "noMailer env (Some cfg) st")
  have 1: "filter is_mail (trace st1) = filter is_mail (trace st)"
    by (rule noMailer_filter [where P = is_mail, OF _ _ _ n]) simp_all
  obtain b where "r = Inr b" using noMailer_quiet [of env "Some cfg" st] n by auto
  with n 1 assms show ?thesis
    by (auto simp: noticeMaster_def sent_mails_def js_and_def split: bool.splits sum.splits)
qed

lemma noticePushoo_fires:
  assumes "truthy (cfg ''PUSHOO_CHANNEL'')" and "truthy (cfg ''PUSHOO_TOKEN'')"
    and "equalsMail (cfg ''BLOGGER_EMAIL'') (c ''mail'') = Inr False"
    and "pushMessage env c cfg = Inr msg"
  shows "pushes (snd (noticePushoo env c (Some cfg) st))
         = pushes st @ [PushooCall (cfg ''PUSHOO_CHANNEL'') msg]"
  using assms by (simp add: noticePushoo_def pushes_def split: sum.splits)

lemma noticePushoo_throws:
  assumes "truthy (cfg ''PUSHOO_CHANNEL'')" and "truthy (cfg ''PUSHOO_TOKEN'')"
    and "equalsMail (cfg ''BLOGGER_EMAIL'') (c ''mail'') = Inr False"
    and "pushMessage env c cfg = Inl e"
  shows "noticePushoo env c (Some cfg) st = (Inl e, st)"
  using assms by (simp add: noticePushoo_def)

text \<open>
  The message can be composed for a comment whose text and link are strings, when the
  other values that are printed in it are primitive.
\<close>

lemma pushMessage_strings:
  assumes "c ''comment'' = JStr t" and "c ''href'' = JStr h" and "h \<noteq> []"
    and "js_or (c ''id'') (c ''_id'') = JStr i"
    and "primitive (c ''nick'')" and "primitive (c ''mail'')" and "primitive (c ''ip'')"
    and "primitive (cfg ''SITE_NAME'')"
  shows "\<exists>msg. pushMessage env c cfg = Inr msg"
proof -
  obtain n m a s where p: "js_String (c ''nick'') = Inr n" "js_String (c ''mail'') = Inr m"
    "js_String (c ''ip'') = Inr a" "js_String (cfg ''SITE_NAME'') = Inr s"
    using assms(5-8) by (meson js_String_primitive)
  show ?thesis
    using assms(1-4) p
    by (simp add: pushMessage_def stripHtml_def postUrl_def appendHashToUrl_def pushSubject_def
        Let_def)
qed

text \<open>
  C6, as the code has it. With a push channel and a push token configured and
  \<^verbatim>\<open>SC_MAIL_NOTIFY\<close> unset or anything but the string \<^verbatim>\<open>true\<close>, \<^verbatim>\<open>noticeMaster\<close> sends no
  mail, and returns before it composes one unless the comparison with the owner's address
  throws. \<^verbatim>\<open>noticePushoo\<close>, for a commenter who is not the owner, makes the push call with
  the message it has composed; when composing the message throws, as it does for a comment
  without text, it rejects with that error and makes no call.
\<close>

theorem push_replaces_owner_mail:
  assumes "truthy (cfg ''PUSHOO_CHANNEL'')" and "truthy (cfg ''PUSHOO_TOKEN'')"
    and "cfg ''SC_MAIL_NOTIFY'' \<noteq> JStr ''true''"
  shows "sent_mails (snd (noticeMaster env c (Some cfg) st)) = sent_mails st
         \<and> (\<not> isl (equalsMail (cfg ''BLOGGER_EMAIL'') (c ''mail'')) \<longrightarrow>
              fst (noticeMaster env c (Some cfg) st) = Inr None)
         \<and> (equalsMail (cfg ''BLOGGER_EMAIL'') (c ''mail'') = Inr False
              \<and> pushMessage env c cfg = Inr msg \<longrightarrow>
            pushes (snd (noticePushoo env c (Some cfg) st))
            = pushes st @ [PushooCall (cfg ''PUSHOO_CHANNEL'') msg])
         \<and> (equalsMail (cfg ''BLOGGER_EMAIL'') (c ''mail'') = Inr False
              \<and> pushMessage env c cfg = Inl e \<longrightarrow>
            noticePushoo env c (Some cfg) st = (Inl e, st))"
  using assms noticeMaster_push_configured [of cfg env c st]
    noticePushoo_fires [of cfg c env msg st] noticePushoo_throws [of cfg c env e st]
  by simp

text \<open>
  C6 as stated fails for a comment without text: the push is configured, the mail to the
  owner is not switched on, the commenter is not the owner, and no push call is made.
\<close>

theorem push_needs_comment_text:
  "truthy (push_site ''PUSHOO_CHANNEL'') \<and> truthy (push_site ''PUSHOO_TOKEN'')
   \<and> push_site ''SC_MAIL_NOTIFY'' \<noteq> JStr ''true''
   \<and> equalsMail (push_site ''BLOGGER_EMAIL'') (mute_comment ''mail'') = Inr False
   \<and> mute_comment ''comment'' = JUndefined
   \<and> fst (noticePushoo env_up mute_comment (Some push_site) fresh) = Inl TypeError
   \<and> pushes (snd (noticePushoo env_up mute_comment (Some push_site) fresh)) = []"
  by code_simp

theorem push_replaces_owner_mail_witness:
  "truthy (push_site ''PUSHOO_CHANNEL'') \<and> truthy (push_site ''PUSHOO_TOKEN'')
   \<and> push_site ''SC_MAIL_NOTIFY'' \<noteq> JStr ''true''
   \<and> \<not> isl (equalsMail (push_site ''BLOGGER_EMAIL'') (bob ''mail''))
   \<and> equalsMail (push_site ''BLOGGER_EMAIL'') (bob ''mail'') = Inr False
   \<and> pushMessage env_up bob push_site
       = Inr \<lparr>push_token = JStr ''tok'', push_title = JStr ''X'', push_content = ''hello'',
              push_bark_url = ''https://x/y#abc''\<rparr>
   \<and> pushMessage env_up mute_comment push_site = Inl TypeError
   \<and> equalsMail (push_site ''BLOGGER_EMAIL'') (mute_comment ''mail'') = Inr False
   \<and> fst (noticeMaster env_up bob (Some push_site) fresh) = Inr None
   \<and> sent_mails (snd (noticeMaster env_up bob (Some push_site) fresh)) = sent_mails fresh
   \<and> pushes (snd (noticePushoo env_up bob (Some push_site) fresh))
       = [PushooCall (JStr ''bark'')
            \<lparr>push_token = JStr ''tok'', push_title = JStr ''X'', push_content = ''hello'',
             push_bark_url = ''https://x/y#abc''\<rparr>]
   \<and> noticePushoo env_up mute_comment (Some push_site) fresh = (Inl TypeError, fresh)"
proof -
  let ?msg = "\<lparr>push_token = JStr ''tok'', push_title = JStr ''X'', push_content = ''hello'',
              push_bark_url = ''https://x/y#abc''\<rparr>"
  have a: "truthy (push_site ''PUSHOO_CHANNEL'')" "truthy (push_site ''PUSHOO_TOKEN'')"
    "push_site ''SC_MAIL_NOTIFY'' \<noteq> JStr ''true''"
    by (simp_all add: push_site_def site_def)
  have b: "equalsMail (push_site ''BLOGGER_EMAIL'') (bob ''mail'') = Inr False" by code_simp
  have b': "equalsMail (push_site ''BLOGGER_EMAIL'') (mute_comment ''mail'') = Inr False"
    by code_simp
  have c: "pushMessage env_up bob push_site = Inr ?msg" by code_simp
  have d: "pushMessage env_up mute_comment push_site = Inl TypeError" by code_simp
  have e: "push_site ''PUSHOO_CHANNEL'' = JStr ''bark''" "pushes fresh = []"
    by (simp_all add: push_site_def site_def pushes_def fresh_def)
  note t1 = push_replaces_owner_mail [OF a, where c = bob and env = env_up and st = fresh
      and msg = ?msg]
  note t2 = push_replaces_owner_mail [OF a, where c = mute_comment and env = env_up
      and st = fresh and e = TypeError]
  have f: "fst (noticeMaster env_up bob (Some push_site) fresh) = Inr None"
    "sent_mails (snd (noticeMaster env_up bob (Some push_site) fresh)) = sent_mails fresh"
    "pushes (snd (noticePushoo env_up bob (Some push_site) fresh)) = [PushooCall (JStr ''bark'') ?msg]"
    using t1 b c e by simp_all
  have g: "noticePushoo env_up mute_comment (Some push_site) fresh = (Inl TypeError, fresh)"
    using t2 b' d by blast
  show ?thesis
    using a b b' c d f g by simp
qed

subsection \<open>Missing mail addresses\<close>

lemma equalsMail_falsy: "\<not> truthy m1 \<or> \<not> truthy m2 \<Longrightarrow> equalsMail m1 m2 = Inr False"
  by (auto simp: equalsMail_def)

lemma noticeMaster_owner_skips:
  assumes "equalsMail (cfg ''BLOGGER_EMAIL'') (c ''mail'') = Inr False"
  shows "owner_skips (snd (noticeMaster env c (Some cfg) st)) = owner_skips st"
proof -
  let ?P = "\<lambda>e. e = Console LogInfo OwnerCommentNoNotice"
  obtain r st1 where n: "noMailer env (Some cfg) st = (r, st1)" by (cases "noMailer env (Some cfg) st")
  have 1: "filter ?P (trace st1) = filter ?P (trace st)"
    by (rule noMailer_filter [where P = ?P, OF _ _ _ n]) simp_all
  show ?thesis
    using n 1 assms
    by (auto simp: noticeMaster_def owner_skips_def dest!: sendMail_filter [where P = ?P, rotated]
        split: prod.splits sum.splits bool.splits)
qed

lemma noticePushoo_owner_skips:
  assumes "equalsMail (cfg ''BLOGGER_EMAIL'') (c ''mail'') = Inr False"
  shows "owner_skips (snd (noticePushoo env c (Some cfg) st)) = owner_skips st"
  using assms by (auto simp: noticePushoo_def owner_skips_def Let_def split: sum.splits)

lemma tmsCheck_false:
  "tmsCheck env c cfg st = (JBool False, st1) \<Longrightarrow>
     length (provider_calls st1) = Suc (length (provider_calls st))"
  by (auto simp: tmsCheck_def provider_calls_def Let_def split: sum.splits)

lemma akismetCheck_false:
  "akismetCheck env c cfg st = (Inr (JBool False), st1) \<Longrightarrow>
     length (provider_calls st1) = Suc (Suc (length (provider_calls st)))"
  by (auto simp: akismetCheck_def provider_calls_def Let_def split: sum.splits if_splits)

lemma postCheckSpam_false_by_provider:
  assumes "equalsMail (cfg ''BLOGGER_EMAIL'') (c ''mail'') = Inr False"
    and "fst (postCheckSpam env c (Some cfg) st) = Inr (JBool False)"
  shows "provider_calls (snd (postCheckSpam env c (Some cfg) st)) \<noteq> provider_calls st"
proof -
  obtain r st1 where t: "postCheckSpam_try env c (Some cfg) st = (r, st1)"
    by (cases "postCheckSpam_try env c (Some cfg) st")
  with assms(2) have r: "r = Inr (JBool False)" and s: "snd (postCheckSpam env c (Some cfg) st) = st1"
    by (auto simp: postCheckSpam_def split: sum.splits)
  have "length (provider_calls st1) > length (provider_calls st)"
    using t assms(1) unfolding r
    by (auto simp: postCheckSpam_try_def provider_calls_def
        dest!: tmsCheck_false akismetCheck_false split: if_splits prod.splits)
  with s show ?thesis by auto
qed

text \<open>
  C9. When one of two mail values is absent, \<^verbatim>\<open>null\<close> or the empty string,
  \<^verbatim>\<open>equalsMail\<close> is false. So with no \<^verbatim>\<open>BLOGGER_EMAIL\<close> configured, or a comment without a
  mail address, neither \<^verbatim>\<open>noticeMaster\<close> nor \<^verbatim>\<open>noticePushoo\<close> takes the branch that skips
  the owner's own comment (the line of that branch is not written), and the classifier does not
  take the owner exemption: a verdict \<^verbatim>\<open>false\<close> then comes with a call to a provider.
\<close>

theorem missing_mail_never_owner:
  assumes "m1 \<in> {JUndefined, JNull, JStr []} \<or> m2 \<in> {JUndefined, JNull, JStr []}"
  shows "equalsMail m1 m2 = Inr False
         \<and> (cfg ''BLOGGER_EMAIL'' = m1 \<and> c ''mail'' = m2 \<longrightarrow>
              owner_skips (snd (noticeMaster env c (Some cfg) st)) = owner_skips st
              \<and> owner_skips (snd (noticePushoo env c (Some cfg) st)) = owner_skips st
              \<and> (fst (postCheckSpam env c (Some cfg) st) = Inr (JBool False) \<longrightarrow>
                   provider_calls (snd (postCheckSpam env c (Some cfg) st)) \<noteq> provider_calls st))"
proof -
  have "\<not> truthy m1 \<or> \<not> truthy m2" using assms by auto
  then have "equalsMail m1 m2 = Inr False" by (rule equalsMail_falsy)
  then show ?thesis
    using noticeMaster_owner_skips [of cfg c env st] noticePushoo_owner_skips [of cfg c env st]
      postCheckSpam_false_by_provider [of cfg c env st]
    by blast
qed

theorem missing_mail_never_owner_witness:
  "JUndefined \<in> {JUndefined, JNull, JStr []}
   \<and> equalsMail JUndefined (JStr ''bob@y.org'') = Inr False
   \<and> (site(''BLOGGER_EMAIL'' := JUndefined)) ''BLOGGER_EMAIL'' = JUndefined
   \<and> bob ''mail'' = JStr ''bob@y.org''
   \<and> owner_skips (snd (noticeMaster env_up bob (Some (site(''BLOGGER_EMAIL'' := JUndefined))) fresh))
       = owner_skips fresh
   \<and> owner_skips (snd (noticePushoo env_up bob (Some (site(''BLOGGER_EMAIL'' := JUndefined))) fresh))
       = owner_skips fresh
   \<and> fst (postCheckSpam env_up bob (Some (site(''BLOGGER_EMAIL'' := JUndefined))) fresh)
       = Inr (JBool False)
   \<and> provider_calls (snd (postCheckSpam env_up bob (Some (site(''BLOGGER_EMAIL'' := JUndefined))) fresh))
       \<noteq> provider_calls fresh"
proof -
  have a: "bob ''mail'' = JStr ''bob@y.org''" by (simp add: bob_def)
  have b: "fst (postCheckSpam env_up bob (Some (site(''BLOGGER_EMAIL'' := JUndefined))) fresh)
             = Inr (JBool False)"
    by code_simp
  show ?thesis
    using a b
      missing_mail_never_owner [where ?m1.0 = JUndefined and ?m2.0 = "JStr ''bob@y.org''"
        and cfg = "site(''BLOGGER_EMAIL'' := JUndefined)" and c = bob and env = env_up
        and st = fresh]
    by simp
qed

subsection \<open>QQ mail addresses\<close>

lemma list_ex_member: "x \<in> set xs \<Longrightarrow> P x \<Longrightarrow> list_ex P xs"
  by (auto simp: list_ex_iff)

lemma isQQ_any_char:
  assumes "is_digit19 d" and "list_all is_digit ds" and "4 \<le> length ds" and "length ds \<le> 10"
    and "regex_dot x"
  shows "isQQ (JStr (d # ds @ ''@qq'' @ [x] @ ''com'')) = Inr True"
proof -
  let ?rest = "''@qq'' @ [x] @ ''com''"
  let ?ok = "\<lambda>n. n \<le> length (ds @ ?rest) \<and> list_all is_digit (take n (ds @ ?rest))
                \<and> qq_com_at False (drop n (ds @ ?rest))"
  have "length ds = 4 \<or> length ds = 5 \<or> length ds = 6 \<or> length ds = 7 \<or> length ds = 8
        \<or> length ds = 9 \<or> length ds = 10"
    using assms(3,4) by arith
  then have mem: "length ds \<in> set [4, 5, 6, 7, 8, 9, 10]"
    by (simp only: list.set insert_iff) blast
  have "qq_com_at False ?rest"
    using assms(5) by (simp add: qq_com_at_def)
  then have body: "?ok (length ds)"
    using assms(2) by simp
  have "list_ex ?ok [4, 5, 6, 7, 8, 9, 10]"
    using mem body by (rule list_ex_member [where x = "length ds" and P = ?ok])
  with assms(1) have "re_qq_mail (d # ds @ ?rest)"
    unfolding re_qq_mail_def list.case by (rule conjI)
  then show ?thesis
    by (simp only: isQQ_def js_String.simps and_then_def sum.case simp_thms)
qed

lemma handleGetQQAvatar_unstripped:
  assumes "data_mail data = JStr ''12345@qqxcom''"
  shows "handleGetQQAvatar env data st
           = (case getQQAvatar env (JStr ''12345@qqxcom'') st of
                (av, st1) \<Rightarrow> (empty_response\<lparr>code := Some SUCCESS, avatar := av\<rparr>, st1))"
proof -
  have "isQQ (JStr ''12345@qqxcom'') = Inr True" by code_simp
  moreover have "strip_qq_suffix (JStr ''12345@qqxcom'') = Inr (JStr ''12345@qqxcom'')" by code_simp
  ultimately show ?thesis using assms by (simp add: handleGetQQAvatar_def)
qed

lemma getQQAvatar_request:
  "http_calls (snd (getQQAvatar env (JStr ''12345@qqxcom'') st))
     = http_calls st @ [HttpGet ''https://aq.qq.com/cn2/get_img/get_face?img_type=3&uin=12345'']"
proof -
  have "remove_qq_com ''12345@qqxcom'' = ''12345''" by code_simp
  then show ?thesis
    by (simp add: getQQAvatar_def http_calls_def Let_def split: sum.splits)
qed

text \<open>
  C10, as the code has it. \<^verbatim>\<open>isQQ\<close> accepts a number of 5 to 11 digits followed by
  \<^verbatim>\<open>@qq\<close>, any one character that is not a line terminator, and \<^verbatim>\<open>com\<close>; the handler
  strips only a literal \<^verbatim>\<open>@qq.com\<close> at the end. So for \<^verbatim>\<open>12345@qqxcom\<close> the action does
  not answer FAIL and hands the whole string to \<^verbatim>\<open>getQQAvatar\<close>. That function removes
  \<^verbatim>\<open>@qq.com\<close> once more, again with an unescaped dot, so the request that goes out asks
  for the number 12345.
\<close>

theorem qq_mail_unescaped_dot:
  "(is_digit19 d \<and> list_all is_digit ds \<and> 4 \<le> length ds \<and> length ds \<le> 10 \<and> regex_dot x \<longrightarrow>
      isQQ (JStr (d # ds @ ''@qq'' @ [x] @ ''com'')) = Inr True)
   \<and> strip_qq_suffix (JStr ''12345@qq.com'') = Inr (JStr ''12345'')
   \<and> strip_qq_suffix (JStr ''12345@qqxcom'') = Inr (JStr ''12345@qqxcom'')
   \<and> (data_mail data = JStr ''12345@qqxcom'' \<longrightarrow>
        handleGetQQAvatar env data st
          = (case getQQAvatar env (JStr ''12345@qqxcom'') st of
               (av, st1) \<Rightarrow> (empty_response\<lparr>code := Some SUCCESS, avatar := av\<rparr>, st1))
        \<and> code (fst (handleGetQQAvatar env data st)) = Some SUCCESS
        \<and> http_calls (snd (handleGetQQAvatar env data st))
            = http_calls st
              @ [HttpGet ''https://aq.qq.com/cn2/get_img/get_face?img_type=3&uin=12345''])"
proof -
  have 1: "strip_qq_suffix (JStr ''12345@qq.com'') = Inr (JStr ''12345'')" by code_simp
  have 2: "strip_qq_suffix (JStr ''12345@qqxcom'') = Inr (JStr ''12345@qqxcom'')" by code_simp
  have 3: "code (fst (handleGetQQAvatar env data st)) = Some SUCCESS
           \<and> http_calls (snd (handleGetQQAvatar env data st))
            = http_calls st
              @ [HttpGet ''https://aq.qq.com/cn2/get_img/get_face?img_type=3&uin=12345'']"
    if "data_mail data = JStr ''12345@qqxcom''"
    using handleGetQQAvatar_unstripped [OF that, of env st] getQQAvatar_request [of env st]
    by (simp add: empty_response_def split: prod.splits)
  show ?thesis
    using 1 2 3 isQQ_any_char [of d ds x] handleGetQQAvatar_unstripped [of data env st]
    by blast
qed

text \<open>
  C10 as stated fails twice: a line feed in the place of the dot is not accepted, and the
  lookup for \<^verbatim>\<open>12345@qqxcom\<close> is made with the number, not with the whole string.
\<close>

theorem qq_lookup_gets_number:
  "isQQ (JStr (''12345@qq'' @ [CHR 0x0A] @ ''com'')) = Inr False
   \<and> isQQ (JStr ''12345@qqxcom'') = Inr True
   \<and> trace (snd (handleGetQQAvatar env_up qq_request fresh))
       = [HttpGet ''https://aq.qq.com/cn2/get_img/get_face?img_type=3&uin=12345'']"
  by code_simp

theorem qq_mail_unescaped_dot_witness:
  "is_digit19 CHR ''1'' \<and> list_all is_digit ''2345'' \<and> regex_dot CHR ''x''
   \<and> isQQ (JStr ''12345@qqxcom'') = Inr True
   \<and> data_mail qq_request = JStr ''12345@qqxcom''
   \<and> code (fst (handleGetQQAvatar env_down qq_request fresh)) = Some SUCCESS
   \<and> http_calls (snd (handleGetQQAvatar env_down qq_request fresh))
       = [HttpGet ''https://aq.qq.com/cn2/get_img/get_face?img_type=3&uin=12345'']"
proof -
  have a: "is_digit19 CHR ''1''" "list_all is_digit ''2345''" "regex_dot CHR ''x''"
    by (simp_all add: is_digit19_def is_digit_def regex_dot_def)
  have l: "4 \<le> length ''2345''" "length ''2345'' \<le> 10" by simp_all
  have b: "data_mail qq_request = JStr ''12345@qqxcom''" by (simp add: qq_request_def)
  have c: "http_calls fresh = []" by (simp add: http_calls_def fresh_def)
  note t = qq_mail_unescaped_dot [where d = "CHR ''1''" and ds = "''2345''" and x = "CHR ''x''"
        and data = qq_request and env = env_down and st = fresh]
  have "isQQ (JStr (CHR ''1'' # ''2345'' @ ''@qq'' @ [CHR ''x''] @ ''com'')) = Inr True"
    using t a l by blast
  then have q: "isQQ (JStr ''12345@qqxcom'') = Inr True" by simp
  have "code (fst (handleGetQQAvatar env_down qq_request fresh)) = Some SUCCESS"
    and "http_calls (snd (handleGetQQAvatar env_down qq_request fresh))
       = http_calls fresh
         @ [HttpGet ''https://aq.qq.com/cn2/get_img/get_face?img_type=3&uin=12345'']"
    using t b by blast+
  with a b q show ?thesis by (simp add: c)
qed

subsection \<open>Templates\<close>

text \<open>
  C8. The template of the specification renders as it says. A value that holds \<^verbatim>\<open>$$\<close> or
  \<^verbatim>\<open>$&\<close> is not inserted as it is: \<^verbatim>\<open>replace\<close> reads the value as a replacement pattern,
  so a comment \<^verbatim>\<open>It costs $$5\<close> arrives as \<^verbatim>\<open>It costs $5\<close>, and the nickname \<^verbatim>\<open>$&\<close>
  leaves the placeholder in the mail.
\<close>

theorem template_dollar_patterns:
  "masterContent env_up bob site (JStr ''img'') ''u'' = Inr ''Hi Bob, hello''
   \<and> masterContent env_up (bob(''comment'' := JStr ''It costs $$5'')) site (JStr ''img'') ''u''
       = Inr ''Hi Bob, It costs $5''
   \<and> masterContent env_up (bob(''nick'' := JStr ''$&'')) site (JStr ''img'') ''u''
       = Inr ''Hi ${NICK}, hello''"
  by code_simp

end
